theory Spec2Isabelle
  imports Main "HOL-Library.Word"
begin

section \<open>Identifier utilities: \<open>titleToSlug\<close>\<close>

text \<open>
  A JavaScript string is a sequence of UTF-16 code units. Titles and slugs are modelled
  as lists of 16-bit words, so that the character classes of the regular expressions
  (which, without the \<open>u\<close> flag, range over code units) are comparisons of words.
\<close>

type_synonym ustring = "16 word list"

text \<open>
  \<open>String.prototype.toLowerCase\<close> and \<open>String.prototype.normalize('NFD')\<close> are
  functions of the JavaScript runtime, not of the repository; they are parameters
  (the record is extended below by the other runtime functions the code calls).
\<close>

record jslib =
  toLowerCase :: "ustring \<Rightarrow> ustring"
  normalizeNFD :: "ustring \<Rightarrow> ustring"

definition dash :: "16 word" where
  "dash = 0x2d"

text \<open>The class of the combining marks, code units 0x0300 to 0x036f.\<close>

definition is_combining_mark :: "16 word \<Rightarrow> bool" where
  "is_combining_mark c = (0x300 \<le> c \<and> c \<le> 0x36f)"

text \<open>The class \<open>[a-z0-9]\<close>.\<close>

definition is_alnum :: "16 word \<Rightarrow> bool" where
  "is_alnum c = ((0x61 \<le> c \<and> c \<le> 0x7a) \<or> (0x30 \<le> c \<and> c \<le> 0x39))"

text \<open>The first \<open>replace\<close>, of the combining marks by nothing: every code unit of the class is deleted.\<close>

definition remove_accents :: "ustring \<Rightarrow> ustring" where
  "remove_accents s = filter (\<lambda>c. \<not> is_combining_mark c) s"

text \<open>
  \<open>.replace(/[^a-z0-9]+/g, '-')\<close>: scanning from the left, every maximal run of code
  units outside \<open>[a-z0-9]\<close> is replaced by one dash.
\<close>

function replace_non_alnum :: "ustring \<Rightarrow> ustring" where
  "replace_non_alnum [] = []"
| "replace_non_alnum (c # cs) =
     (if is_alnum c then c # replace_non_alnum cs
      else dash # replace_non_alnum (dropWhile (\<lambda>d. \<not> is_alnum d) cs))"
  by pat_completeness auto
termination
  by (relation "measure length") (auto simp: le_imp_less_Suc length_dropWhile_le)

text \<open>
  \<open>.replace(/^-|-$/g, '')\<close>: the first alternative can only match at index 0 and
  removes one dash there; scanning resumes after it, where only the second alternative
  can match, and only at the last code unit. So one leading dash is removed, and then
  one trailing dash of what is left.
\<close>

definition trim_dashes :: "ustring \<Rightarrow> ustring" where
  "trim_dashes s =
     (let s1 = (case s of [] \<Rightarrow> [] | c # cs \<Rightarrow> if c = dash then cs else s)
      in if s1 \<noteq> [] \<and> last s1 = dash then butlast s1 else s1)"

definition titleToSlug :: "'r jslib_scheme \<Rightarrow> ustring \<Rightarrow> ustring" where
  "titleToSlug lib title =
     trim_dashes (replace_non_alnum (remove_accents (normalizeNFD lib (toLowerCase lib title))))"

subsection \<open>What a slug looks like\<close>

definition is_lower_ascii :: "16 word \<Rightarrow> bool" where
  "is_lower_ascii c = (0x61 \<le> c \<and> c \<le> 0x7a)"

definition is_digit_ascii :: "16 word \<Rightarrow> bool" where
  "is_digit_ascii c = (0x30 \<le> c \<and> c \<le> 0x39)"

definition slug_char :: "16 word \<Rightarrow> bool" where
  "slug_char c = (is_lower_ascii c \<or> is_digit_ascii c \<or> c = dash)"

fun single_dashes :: "ustring \<Rightarrow> bool" where
  "single_dashes [] = True"
| "single_dashes [c] = True"
| "single_dashes (c # d # cs) = (\<not> (c = dash \<and> d = dash) \<and> single_dashes (d # cs))"

definition no_outer_dash :: "ustring \<Rightarrow> bool" where
  "no_outer_dash s = (case s of [] \<Rightarrow> True | c # cs \<Rightarrow> c \<noteq> dash \<and> last s \<noteq> dash)"

text \<open>
  The one fact about the runtime that idempotence needs: lower-casing and canonical
  decomposition leave a string of lower-case ASCII letters, digits and dashes unchanged.
\<close>

definition lib_fixes_slugs :: "'r jslib_scheme \<Rightarrow> bool" where
  "lib_fixes_slugs lib =
     (\<forall>s. list_all slug_char s \<longrightarrow> toLowerCase lib s = s \<and> normalizeNFD lib s = s)"

text \<open>A runtime restricted to ASCII, used to evaluate the definitions on examples.\<close>

definition ascii_lower :: "ustring \<Rightarrow> ustring" where
  "ascii_lower s = map (\<lambda>c. if 0x41 \<le> c \<and> c \<le> 0x5a then c + 0x20 else c) s"

definition ascii_lib :: jslib where
  "ascii_lib = \<lparr>toLowerCase = ascii_lower, normalizeNFD = (\<lambda>s. s)\<rparr>"

definition of_ascii :: "string \<Rightarrow> ustring" where
  "of_ascii s = map (\<lambda>c. of_nat (of_char c)) s"


text \<open>Removing one leading dash, the first half of \<open>trim_dashes\<close>.\<close>

definition drop_leading :: "ustring \<Rightarrow> ustring" where
  "drop_leading s = (case s of [] \<Rightarrow> [] | c # cs \<Rightarrow> if c = dash then cs else s)"

section \<open>The remote query layer\<close>

subsection \<open>Errors\<close>

text \<open>
  Everything the code can throw. \<open>Error m\<close> is \<open>new Error(m)\<close> with a fixed message;
  \<open>HttpError status t\<close> is \<open>new Error(`HTTP error ${status}: ${t}`)\<close>;
  \<open>GraphQLError e\<close> is \<open>new Error(`GraphQL error: ${JSON.stringify(data.errors)}`)\<close>;
  \<open>Thrown m\<close> is an exception raised by the runtime or the browser (a rejected fetch,
  a \<open>SyntaxError\<close> of \<open>JSON.parse\<close>, a \<open>TypeError\<close>, a failed storage read).
\<close>

datatype error =
    Error string
  | HttpError nat string
  | GraphQLError string
  | Thrown string

subsection \<open>Payloads\<close>

text \<open>
  The decoded answer of the GraphQL endpoint. \<open>gql_errors\<close> is \<open>Some e\<close> when the
  \<open>errors\<close> field is truthy (\<open>e\<close> its serialisation); \<open>gql_data\<close> is \<open>Some d\<close> when
  the field the callers read (\<open>data.assignedCourses\<close>, \<open>data.sequence\<close>) is truthy.
\<close>

record 'a graphql_payload =
  gql_errors :: "string option"
  gql_data :: "'a option"

text \<open>A \<open>Response\<close>: \<open>res.status\<close>, \<open>res.ok\<close>, and what \<open>res.text()\<close> and \<open>res.json()\<close> give.\<close>

record 'a http_response =
  res_status :: nat
  res_ok :: bool
  res_text :: "error + string"
  res_json :: "error + 'a graphql_payload"

text \<open>A step, an activity and a sequence as \<open>getSequence\<close> returns them.\<close>

record step =
  activityStepId :: string

text \<open>\<open>steps\<close> is \<open>Some\<close> when \<open>activity.steps\<close> is truthy and an array.\<close>

record activity =
  activityId :: string
  activityType :: string
  steps :: "step list option"

text \<open>The \<open>activities\<close> field comes as a JSON string, as a list, or as something else.\<close>

datatype activities_field =
    ActivitiesString string
  | ActivitiesList "activity list"
  | ActivitiesOther

record sequence =
  sequenceId :: string
  activities :: activities_field

text \<open>
  A course of \<open>data.assignedCourses\<close> and the sequence summaries it lists.
  \<open>summary_title\<close> is \<open>None\<close> when \<open>seq.title\<close> is not a string (null or absent).
\<close>

record sequence_summary =
  summary_id :: string
  summary_title :: "ustring option"

text \<open>\<open>sequences\<close> is \<open>None\<close> when \<open>course.sequences\<close> is falsy.\<close>

record course =
  courseId :: string
  course_title :: ustring
  sequences :: "sequence_summary list option"

subsection \<open>JSON values of the captured request\<close>

datatype json =
    JNull
  | JBool bool
  | JNum int
  | JStr string
  | JArr "json list"
  | JObj "(string \<times> json) list"

text \<open>
  Modelled from the spec: the \<open>Request\<close> type of \<open>lib/request.ts\<close>, a snapshot of a
  captured request of shape \<open>{ url, method, headers, body }\<close> with \<open>body\<close> a JSON string.
\<close>

record request =
  req_url :: string
  req_method :: string
  req_headers :: "(string \<times> string) list"
  req_body :: "string option"

text \<open>What the function injected into the page returns: \<open>{ status, ok, text }\<close>.\<close>

record page_result =
  page_status :: nat
  page_ok :: bool
  page_text :: string

subsection \<open>The runtime and the browser\<close>

text \<open>
  \<open>JSON.parse\<close> and \<open>JSON.stringify\<close>, at the types the code uses them:
  \<open>JSON_parse\<close> on the body of the captured request, \<open>JSON_parse_activities\<close> on the
  \<open>activities\<close> string (\<open>Inr None\<close> when the text parses to a value that is not an
  array), \<open>JSON_stringify\<close> on the rewritten body and \<open>JSON_stringify_request\<close> on the
  copy of the request.
\<close>

record runtime = jslib +
  JSON_parse :: "string \<Rightarrow> error + json"
  JSON_parse_activities :: "string \<Rightarrow> error + activity list option"
  JSON_stringify :: "json \<Rightarrow> string"
  JSON_stringify_request :: "request \<Rightarrow> string"

text \<open>
  What the browser and the network do during one call of an API function:
  \<^item> \<open>storage_session_get\<close>: \<open>browser.storage.session.get\<close> and the read of the key
    \<open>fluency_builder_time_request\<close> (\<open>Inr None\<close>: nothing stored);
  \<^item> \<open>getTab\<close>: the import of \<open>lib/product.ts\<close>, \<open>getTab()\<close> and the read of \<open>tab.id\<close>;
  \<^item> \<open>executeScript\<close>: \<open>browser.scripting.executeScript\<close> running the injected function
    in the tab; an entry is \<open>None\<close> when its \<open>result\<close> is undefined;
  \<^item> \<open>fetch_getCoursesAndProgress\<close>, \<open>fetch_getSequence\<close>, \<open>fetch_AddProgress\<close>: the
    \<open>fetch\<close> of the fixed endpoint with the fixed headers, given the \<open>variables\<close> of
    the operation (the operation name and the query text are constants of each caller);
  \<^item> \<open>replay_uuid\<close>, \<open>replay_now\<close>: the values \<open>generateUUID()\<close> and
    \<open>new Date().toISOString()\<close> give in the replay path (two identifiers and one time per
    message), \<open>direct_uuid\<close>, \<open>direct_now\<close> those of the direct request.
\<close>

record env =
  storage_session_get :: "error + request option"
  getTab :: "error + nat"
  executeScript :: "nat \<Rightarrow> string \<Rightarrow> error + page_result option list"
  userAgent :: string
  replay_uuid :: "nat \<Rightarrow> string"
  replay_now :: "nat \<Rightarrow> string"
  direct_uuid :: "string \<times> string"
  direct_now :: string
  fetch_getCoursesAndProgress :: "string \<Rightarrow> error + course list http_response"
  fetch_getSequence :: "string \<Rightarrow> ustring \<Rightarrow> string \<Rightarrow> error + sequence http_response"
  fetch_AddProgress :: "json \<Rightarrow> error + json http_response"

definition YOUR_AUTH_TOKEN :: string where
  "YOUR_AUTH_TOKEN = ''b4e31b36-a3c0-4f6f-9953-17bf3090e4fb''"

text \<open>
  The tail the three API functions share: a response that is not \<open>ok\<close> throws the HTTP
  error with the body text, a payload with \<open>errors\<close> throws the GraphQL error, and
  otherwise the payload is returned.
\<close>

definition check_response :: "'a http_response \<Rightarrow> error + 'a graphql_payload" where
  "check_response res =
     (if \<not> res_ok res then
        (case res_text res of Inl e \<Rightarrow> Inl e | Inr t \<Rightarrow> Inl (HttpError (res_status res) t))
      else
        (case res_json res of
           Inl e \<Rightarrow> Inl e
         | Inr payload \<Rightarrow>
             (case gql_errors payload of
                Some errs \<Rightarrow> Inl (GraphQLError errs)
              | None \<Rightarrow> Inr payload)))"

definition getCoursesAndProgress :: "env \<Rightarrow> string \<Rightarrow> error + course list graphql_payload" where
  "getCoursesAndProgress e locale =
     (if locale = [] then Inl (Error ''locale is required'')
      else if YOUR_AUTH_TOKEN = [] then Inl (Error ''Authentication token is missing.'')
      else
        (case fetch_getCoursesAndProgress e locale of
           Inl err \<Rightarrow> Inl err
         | Inr res \<Rightarrow> check_response res))"

definition getSequence :: "env \<Rightarrow> string \<Rightarrow> ustring \<Rightarrow> string \<Rightarrow> error + sequence graphql_payload" where
  "getSequence e cid sequenceSlug locale =
     (if cid = [] \<or> sequenceSlug = [] \<or> locale = [] then
        Inl (Error ''courseId, sequenceSlug, and locale are required'')
      else if YOUR_AUTH_TOKEN = [] then Inl (Error ''Authentication token is missing.'')
      else
        (case fetch_getSequence e cid sequenceSlug locale of
           Inl err \<Rightarrow> Inl err
         | Inr res \<Rightarrow> check_response res))"

section \<open>The request-forgery strategy: \<open>addProgressForActivity\<close>\<close>

subsection \<open>Rewriting the captured body\<close>

text \<open>The decimal name of an array index, as an object key.\<close>

fun string_of_nat :: "nat \<Rightarrow> string" where
  "string_of_nat n =
     (if n < 10 then [char_of (48 + n)]
      else string_of_nat (n div 10) @ [char_of (48 + n mod 10)])"

definition indexed :: "json list \<Rightarrow> (string \<times> json) list" where
  "indexed xs = zip (map string_of_nat [0..<length xs]) xs"

text \<open>
  \<open>{...msg}\<close>: the own enumerable properties of a value. An object gives its fields,
  an array and a string give their indexed elements, every other value gives nothing.
\<close>

fun spread :: "json \<Rightarrow> (string \<times> json) list" where
  "spread (JObj kvs) = kvs"
| "spread (JArr xs) = indexed xs"
| "spread (JStr s) = indexed (map (\<lambda>c. JStr [c]) s)"
| "spread JNull = []"
| "spread (JBool b) = []"
| "spread (JNum n) = []"

text \<open>
  Writing a property keeps the place of a key that exists and appends a new one.
\<close>

fun put :: "string \<Rightarrow> json \<Rightarrow> (string \<times> json) list \<Rightarrow> (string \<times> json) list" where
  "put k v [] = [(k, v)]"
| "put k v ((k', v') # kvs) = (if k = k' then (k, v) # kvs else (k', v') # put k v kvs)"

definition put_all :: "(string \<times> json) list \<Rightarrow> (string \<times> json) list \<Rightarrow> (string \<times> json) list" where
  "put_all new kvs = foldl (\<lambda>acc (k, v). put k v acc) kvs new"

text \<open>
  Reading the property \<open>variables\<close> or \<open>messages\<close> of a value that is not null: only
  an object can have it. \<open>None\<close> is \<open>undefined\<close>.
\<close>

fun get_prop :: "json \<Rightarrow> string \<Rightarrow> json option" where
  "get_prop (JObj kvs) k = map_of kvs k"
| "get_prop v k = None"

text \<open>
  Assigning a property (the module is strict code): on an object it is written, on an
  array it is an extra property that \<open>JSON.stringify\<close> does not print, on null and on a
  primitive value it throws a \<open>TypeError\<close>.
\<close>

fun set_prop :: "json \<Rightarrow> string \<Rightarrow> json \<Rightarrow> error + json" where
  "set_prop (JObj kvs) k v = Inr (JObj (put k v kvs))"
| "set_prop (JArr xs) k v = Inr (JArr xs)"
| "set_prop other k v = Inl (Thrown ''TypeError'')"

fun truthy :: "json option \<Rightarrow> bool" where
  "truthy None = False"
| "truthy (Some JNull) = False"
| "truthy (Some (JBool b)) = b"
| "truthy (Some (JNum n)) = (n \<noteq> 0)"
| "truthy (Some (JStr s)) = (s \<noteq> [])"
| "truthy (Some (JArr xs)) = True"
| "truthy (Some (JObj kvs)) = True"

text \<open>The message a captured message is mapped to (lines 140 to 150), \<open>i\<close> its index.\<close>

definition update_message ::
  "env \<Rightarrow> string \<Rightarrow> string \<Rightarrow> string \<Rightarrow> string \<Rightarrow> int \<Rightarrow> nat \<Rightarrow> json \<Rightarrow> json" where
  "update_message e cid sid aid stid score i msg =
     JObj (put_all
       [(''courseId'', JStr cid),
        (''sequenceId'', JStr sid),
        (''activityId'', JStr aid),
        (''activityStepId'', JStr stid),
        (''score'', JNum score),
        (''activityAttemptId'', JStr (replay_uuid e (2 * i))),
        (''activityStepAttemptId'', JStr (replay_uuid e (2 * i + 1))),
        (''endTimestamp'', JStr (replay_now e i))]
       (spread msg))"

text \<open>The single message built when the captured body has none (lines 154 to 168).\<close>

definition new_message ::
  "string \<Rightarrow> string \<Rightarrow> string \<Rightarrow> string \<Rightarrow> string \<Rightarrow> string \<Rightarrow> string \<Rightarrow> int \<Rightarrow> string \<Rightarrow> json" where
  "new_message agent cid sid aid attempt stid stepAttempt score ended =
     JObj
       [(''userAgent'', JStr agent),
        (''courseId'', JStr cid),
        (''sequenceId'', JStr sid),
        (''version'', JNum 1),
        (''activityId'', JStr aid),
        (''activityAttemptId'', JStr attempt),
        (''activityStepId'', JStr stid),
        (''activityStepAttemptId'', JStr stepAttempt),
        (''answers'', JArr []),
        (''score'', JNum score),
        (''skip'', JBool False),
        (''durationMs'', JNum 745),
        (''endTimestamp'', JStr ended)]"

text \<open>
  Lines 139 to 170: the messages of the parsed body are overwritten, or one message is
  put in. \<open>bodyObj.variables?.messages\<close> throws on a null body.
\<close>

definition update_body ::
  "env \<Rightarrow> string \<Rightarrow> string \<Rightarrow> string \<Rightarrow> string \<Rightarrow> int \<Rightarrow> json \<Rightarrow> error + json" where
  "update_body e cid sid aid stid score bodyObj =
     (if bodyObj = JNull then Inl (Thrown ''TypeError'')
      else
        let variables = get_prop bodyObj ''variables'';
            messages = (case variables of
                          None \<Rightarrow> None
                        | Some JNull \<Rightarrow> None
                        | Some v \<Rightarrow> get_prop v ''messages'')
        in
          (case (variables, messages) of
             (Some vars, Some (JArr (m # ms))) \<Rightarrow>
               (case set_prop vars ''messages''
                       (JArr (map (\<lambda>(i, msg). update_message e cid sid aid stid score i msg)
                                  (zip [0..<length (m # ms)] (m # ms)))) of
                  Inl err \<Rightarrow> Inl err
                | Inr vars' \<Rightarrow> set_prop bodyObj ''variables'' vars')
           | _ \<Rightarrow>
               let vars = (if truthy variables then the variables else JObj []) in
                 (case set_prop bodyObj ''variables'' vars of
                    Inl err \<Rightarrow> Inl err
                  | Inr _ \<Rightarrow>
                      (case set_prop vars ''messages''
                              (JArr [new_message (userAgent e) cid sid aid (replay_uuid e 0) stid
                                       (replay_uuid e 1) score (replay_now e 0)]) of
                         Inl err \<Rightarrow> Inl err
                       | Inr vars' \<Rightarrow> set_prop bodyObj ''variables'' vars'))))"

subsection \<open>The replay path\<close>

text \<open>
  The \<open>try\<close> block of lines 131 to 193. \<open>Inl err\<close>: the block threw \<open>err\<close>;
  \<open>Inr None\<close>: it ended without returning (nothing stored, or no body);
  \<open>Inr (Some r)\<close>: it returned \<open>results?.[0]?.result\<close>, which is \<open>r\<close>
  (\<open>None\<close> for \<open>undefined\<close>).
\<close>

definition replay_stored_request ::
  "runtime \<Rightarrow> env \<Rightarrow> string \<Rightarrow> string \<Rightarrow> string \<Rightarrow> string \<Rightarrow> int
     \<Rightarrow> error + page_result option option" where
  "replay_stored_request rt e cid sid aid stid score =
     (case storage_session_get e of
        Inl err \<Rightarrow> Inl err
      | Inr None \<Rightarrow> Inr None
      | Inr (Some storedReq) \<Rightarrow>
          (case req_body storedReq of
             None \<Rightarrow> Inr None
           | Some b \<Rightarrow>
               if b = [] then Inr None
               else
                 (case JSON_parse rt b of
                    Inl err \<Rightarrow> Inl err
                  | Inr bodyObj \<Rightarrow>
                      (case update_body e cid sid aid stid score bodyObj of
                         Inl err \<Rightarrow> Inl err
                       | Inr bodyObj' \<Rightarrow>
                           let reqCopy = storedReq\<lparr>req_body := Some (JSON_stringify rt bodyObj')\<rparr>;
                               reqStr = JSON_stringify_request rt reqCopy
                           in
                             (case getTab e of
                                Inl err \<Rightarrow> Inl err
                              | Inr tab \<Rightarrow>
                                  (case executeScript e tab reqStr of
                                     Inl err \<Rightarrow> Inl err
                                   | Inr results \<Rightarrow>
                                       Inr (Some (case results of [] \<Rightarrow> None | r # _ \<Rightarrow> r))))))))"

subsection \<open>The direct request\<close>

text \<open>
  Lines 199 to 248. The \<open>variables\<close> of the mutation are handed to the network; the
  response goes through the shared checks.
\<close>

definition direct_variables :: "env \<Rightarrow> string \<Rightarrow> string \<Rightarrow> string \<Rightarrow> string \<Rightarrow> int \<Rightarrow> json" where
  "direct_variables e cid sid aid stid score =
     JObj
       [(''userId'', JStr ''8c1694c1-cea8-404a-acc6-5f2f629942b8''),
        (''messages'',
           JArr [new_message (if userAgent e = [] then ''Mozilla/5.0'' else userAgent e)
                   cid sid aid (fst (direct_uuid e)) stid (snd (direct_uuid e)) score
                   (direct_now e)])]"

definition direct_fetch ::
  "env \<Rightarrow> string \<Rightarrow> string \<Rightarrow> string \<Rightarrow> string \<Rightarrow> int \<Rightarrow> error + json graphql_payload" where
  "direct_fetch e cid sid aid stid score =
     (case fetch_AddProgress e (direct_variables e cid sid aid stid score) of
        Inl err \<Rightarrow> Inl err
      | Inr res \<Rightarrow> check_response res)"

text \<open>What \<open>addProgressForActivity\<close> resolves to: the in-page result, or the payload.\<close>

datatype progress_result =
    InPage "page_result option"
  | Payload "json graphql_payload"

definition addProgressForActivity ::
  "runtime \<Rightarrow> env \<Rightarrow> string \<Rightarrow> string \<Rightarrow> string \<Rightarrow> string \<Rightarrow> int \<Rightarrow> error + progress_result" where
  "addProgressForActivity rt e cid sid aid stid score =
     (if cid = [] \<or> sid = [] \<or> aid = [] \<or> stid = [] then
        Inl (Error ''courseId, sequenceId, activityId, and activityStepId are required'')
      else if YOUR_AUTH_TOKEN = [] then Inl (Error ''Authentication token is missing.'')
      else
        (case replay_stored_request rt e cid sid aid stid score of
           Inr (Some r) \<Rightarrow> Inr (InPage r)
         | _ \<Rightarrow>
             (case direct_fetch e cid sid aid stid score of
                Inl err \<Rightarrow> Inl err
              | Inr payload \<Rightarrow> Inr (Payload payload))))"

section \<open>The traversal engines\<close>

subsection \<open>Calls and the world\<close>

text \<open>
  The calls of the API functions an engine makes, in order. The world gives, for the
  calls made so far, what the browser and the network do during the next call; an
  engine hands \<open>world (trace)\<close> to the API function and appends the call to the trace.
  No network request is made outside these three functions.
\<close>

datatype call =
    CallGetCoursesAndProgress string
  | CallGetSequence string ustring string
  | CallAddProgressForActivity string string string string int

type_synonym world = "call list \<Rightarrow> env"

subsection \<open>The selected-batch engine: \<open>handleProcessSelected\<close>\<close>

text \<open>The interfaces \<open>Activity\<close> and \<open>SequenceItem\<close> of the form.\<close>

record Activity =
  act_activityId :: string
  act_activityType :: string
  act_selected :: bool

record SequenceItem =
  item_courseId :: string
  item_courseName :: ustring
  item_sequenceId :: string
  item_sequenceTitle :: ustring
  item_selected :: bool
  item_expanded :: bool
  item_activities :: "Activity list"
  item_loading :: bool

text \<open>
  The lines appended to the report, one constructor per template string:
  the opening line with the total, the failure line of a sequence without data, the
  failure line of a sequence with the message of the error caught, the line of a
  processed sequence (\<open>stepsProcessed\<close>, then the number of selected activities), and
  the closing line with \<open>successCount\<close> and \<open>errorCount\<close>.
\<close>

datatype report_line =
    Processing nat
  | NoSequenceData ustring ustring
  | SequenceError ustring ustring error
  | SequenceDone ustring ustring nat nat
  | Complete nat nat

text \<open>The state of the form that the handler writes, and the errors given to \<open>onError\<close>.\<close>

record form =
  form_error :: "string option"
  form_processing :: bool
  form_result :: "report_line list option"
  form_onError :: "error list"

text \<open>The local variables of the batch loop, the report written so far, and the trace.\<close>

record batch =
  successCount :: nat
  errorCount :: nat
  report :: "report_line list"
  trace :: "call list"

text \<open>
  Lines 200 to 213: one submission per step; \<open>stepsProcessed\<close> is incremented after the
  awaited call, inside the \<open>try\<close>, and the \<open>catch\<close> is empty.
\<close>

fun submit_steps ::
  "runtime \<Rightarrow> world \<Rightarrow> string \<Rightarrow> string \<Rightarrow> string \<Rightarrow> step list \<Rightarrow> nat \<times> batch \<Rightarrow> nat \<times> batch" where
  "submit_steps rt w cid sid aid [] (stepsProcessed, b) = (stepsProcessed, b)"
| "submit_steps rt w cid sid aid (st # sts) (stepsProcessed, b) =
     (let b' = b\<lparr>trace := trace b @ [CallAddProgressForActivity cid sid aid (activityStepId st) 1]\<rparr>
      in case addProgressForActivity rt (w (trace b)) cid sid aid (activityStepId st) 1 of
           Inr _ \<Rightarrow> submit_steps rt w cid sid aid sts (Suc stepsProcessed, b')
         | Inl _ \<Rightarrow> submit_steps rt w cid sid aid sts (stepsProcessed, b'))"

text \<open>Lines 196 to 230: one selected activity, looked up in the fetched list.\<close>

definition process_selected_activity ::
  "runtime \<Rightarrow> world \<Rightarrow> SequenceItem \<Rightarrow> sequence \<Rightarrow> activity list \<Rightarrow> Activity
     \<Rightarrow> nat \<times> batch \<Rightarrow> nat \<times> batch" where
  "process_selected_activity rt w item sq acts selectedAct sb =
     (case find (\<lambda>a. activityId a = act_activityId selectedAct) acts of
        None \<Rightarrow> sb
      | Some act \<Rightarrow>
          (case steps act of
             Some sts \<Rightarrow>
               (let (stepsProcessed, b) =
                      submit_steps rt w (item_courseId item) (sequenceId sq) (activityId act) sts sb
                in (stepsProcessed, b\<lparr>successCount := Suc (successCount b)\<rparr>))
           | None \<Rightarrow>
               (let (stepsProcessed, b) = sb;
                    b' = b\<lparr>trace := trace b @
                           [CallAddProgressForActivity (item_courseId item) (sequenceId sq)
                              (activityId act) (activityId act) 1]\<rparr>
                in case addProgressForActivity rt (w (trace b)) (item_courseId item) (sequenceId sq)
                          (activityId act) (activityId act) 1 of
                     Inr _ \<Rightarrow> (Suc stepsProcessed, b'\<lparr>successCount := Suc (successCount b')\<rparr>)
                   | Inl _ \<Rightarrow> (stepsProcessed, b'\<lparr>errorCount := Suc (errorCount b')\<rparr>))))"

text \<open>
  Lines 184 to 192: a string is parsed, with no handler around \<open>JSON.parse\<close>, and
  what is not an array becomes the empty list.
\<close>

definition selected_activities_of :: "runtime \<Rightarrow> activities_field \<Rightarrow> error + activity list" where
  "selected_activities_of rt field =
     (case field of
        ActivitiesString text \<Rightarrow>
          (case JSON_parse_activities rt text of
             Inl err \<Rightarrow> Inl err
           | Inr None \<Rightarrow> Inr []
           | Inr (Some acts) \<Rightarrow> Inr acts)
      | ActivitiesList acts \<Rightarrow> Inr acts
      | ActivitiesOther \<Rightarrow> Inr [])"

text \<open>Lines 165 to 247: one iteration of the loop over the sequences.\<close>

definition process_item :: "runtime \<Rightarrow> world \<Rightarrow> batch \<Rightarrow> SequenceItem \<Rightarrow> batch" where
  "process_item rt w b item =
     (if \<not> item_selected item then b
      else
        let selectedActivities = filter act_selected (item_activities item) in
        if length selectedActivities = 0 then b
        else
          let seqSlug = titleToSlug rt (item_sequenceTitle item);
              b1 = b\<lparr>trace := trace b @ [CallGetSequence (item_courseId item) seqSlug ''fr-FR'']\<rparr>;
              failed = (\<lambda>line. b1\<lparr>report := report b1 @ [line],
                                   errorCount := errorCount b1 + length selectedActivities\<rparr>)
          in
            (case getSequence (w (trace b)) (item_courseId item) seqSlug ''fr-FR'' of
               Inl err \<Rightarrow>
                 failed (SequenceError (item_courseName item) (item_sequenceTitle item) err)
             | Inr seqData \<Rightarrow>
                 (case gql_data seqData of
                    None \<Rightarrow> failed (NoSequenceData (item_courseName item) (item_sequenceTitle item))
                  | Some sq \<Rightarrow>
                      (case selected_activities_of rt (activities sq) of
                         Inl err \<Rightarrow>
                           failed (SequenceError (item_courseName item) (item_sequenceTitle item) err)
                       | Inr acts \<Rightarrow>
                           (let (stepsProcessed, b2) =
                                  foldl (\<lambda>sb selectedAct.
                                           process_selected_activity rt w item sq acts selectedAct sb)
                                    (0, b1) selectedActivities
                            in b2\<lparr>report := report b2 @
                                     [SequenceDone (item_courseName item) (item_sequenceTitle item)
                                        stepsProcessed (length selectedActivities)]\<rparr>)))))"

text \<open>Lines 147 to 152.\<close>

definition totalActivities :: "SequenceItem list \<Rightarrow> nat" where
  "totalActivities items =
     foldl (\<lambda>total item.
              if item_selected item then total + length (filter act_selected (item_activities item))
              else total)
       0 items"

text \<open>
  \<open>handleProcessSelected\<close>: the form after the handler has run, and the calls it made.
\<close>

definition handleProcessSelected ::
  "runtime \<Rightarrow> world \<Rightarrow> SequenceItem list \<Rightarrow> form \<Rightarrow> form \<times> call list" where
  "handleProcessSelected rt w items f =
     (if totalActivities items = 0 then
        (f\<lparr>form_error := Some ''Please select at least one activity in a sequence''\<rparr>, [])
      else
        let b0 = \<lparr>successCount = 0, errorCount = 0,
                  report = [Processing (totalActivities items)], trace = []\<rparr>;
            b = foldl (process_item rt w) b0 items
        in (f\<lparr>form_processing := False,
               form_result := Some (report b @ [Complete (successCount b) (errorCount b)])\<rparr>,
            trace b))"

subsection \<open>The walk over everything: \<open>processAllProgress\<close>\<close>

text \<open>
  What the walk writes to the console, one constructor per \<open>console.log\<close>,
  \<open>console.warn\<close> or \<open>console.error\<close> of lines 260 to 356, in the order of the source.
\<close>

datatype log_entry =
    LogFetchingCourses
  | LogFoundCourses nat
  | LogProcessingCourse string ustring
  | LogNoSequences string
  | LogProcessingSequence ustring ustring
  | LogFetchingSequence
  | LogNoSequenceData ustring
  | LogParseWarning error
  | LogNoActivities ustring
  | LogFoundActivities nat
  | LogProcessingActivity nat nat string
  | LogStepAdded string
  | LogActivityAdded string
  | LogActivityFailed string error
  | LogSequenceFailed ustring error
  | LogComplete
  | LogError error

record walk =
  console :: "log_entry list"
  calls :: "call list"

definition say :: "log_entry \<Rightarrow> walk \<Rightarrow> walk" where
  "say entry wk = wk\<lparr>console := console wk @ [entry]\<rparr>"

definition called :: "call \<Rightarrow> walk \<Rightarrow> walk" where
  "called c wk = wk\<lparr>calls := calls wk @ [c]\<rparr>"

text \<open>
  Lines 323 to 332: the loop over the steps stands inside the \<open>try\<close> of the activity,
  so the first submission that throws ends it; \<open>Inl\<close> carries the error out.
\<close>

fun add_steps ::
  "runtime \<Rightarrow> world \<Rightarrow> string \<Rightarrow> string \<Rightarrow> string \<Rightarrow> step list \<Rightarrow> walk \<Rightarrow> error \<times> walk + walk" where
  "add_steps rt w cid sid aid [] wk = Inr wk"
| "add_steps rt w cid sid aid (st # sts) wk =
     (let wk' = called (CallAddProgressForActivity cid sid aid (activityStepId st) 1) wk
      in case addProgressForActivity rt (w (calls wk)) cid sid aid (activityStepId st) 1 of
           Inl err \<Rightarrow> Inl (err, wk')
         | Inr _ \<Rightarrow> add_steps rt w cid sid aid sts (say (LogStepAdded (activityStepId st)) wk'))"

text \<open>Lines 335 to 342: the activity without steps, its identifier used as step identifier.\<close>

definition add_activity ::
  "runtime \<Rightarrow> world \<Rightarrow> string \<Rightarrow> string \<Rightarrow> string \<Rightarrow> walk \<Rightarrow> error \<times> walk + walk" where
  "add_activity rt w cid sid aid wk =
     (let wk' = called (CallAddProgressForActivity cid sid aid aid 1) wk
      in case addProgressForActivity rt (w (calls wk)) cid sid aid aid 1 of
           Inl err \<Rightarrow> Inl (err, wk')
         | Inr _ \<Rightarrow> Inr (say (LogActivityAdded aid) wk'))"

text \<open>Lines 321 to 343: the body of the \<open>try\<close> of an activity.\<close>

definition try_activity ::
  "runtime \<Rightarrow> world \<Rightarrow> string \<Rightarrow> sequence \<Rightarrow> activity \<Rightarrow> walk \<Rightarrow> error \<times> walk + walk" where
  "try_activity rt w cid sq act wk =
     (case steps act of
        Some (st # sts) \<Rightarrow> add_steps rt w cid (sequenceId sq) (activityId act) (st # sts) wk
      | _ \<Rightarrow> add_activity rt w cid (sequenceId sq) (activityId act) wk)"

text \<open>Lines 317 to 346: the activity at index \<open>i\<close> of \<open>n\<close>, with its \<open>try\<close> and \<open>catch\<close>.\<close>

definition walk_activity ::
  "runtime \<Rightarrow> world \<Rightarrow> string \<Rightarrow> sequence \<Rightarrow> nat \<Rightarrow> walk \<Rightarrow> nat \<times> activity \<Rightarrow> walk" where
  "walk_activity rt w cid sq n wk ia =
     (let i = fst ia; act = snd ia
      in case try_activity rt w cid sq act
                (say (LogProcessingActivity (i + 1) n (activityId act)) wk) of
           Inl (activityError, wk2) \<Rightarrow> say (LogActivityFailed (activityId act) activityError) wk2
         | Inr wk2 \<Rightarrow> wk2)"

text \<open>
  Lines 296 to 306: a string is parsed inside its own \<open>try\<close>; when \<open>JSON.parse\<close> throws,
  a warning is written and the list is empty. \<open>None\<close>: the value is not an array.
\<close>

definition all_activities_of :: "runtime \<Rightarrow> activities_field \<Rightarrow> walk \<Rightarrow> activity list option \<times> walk" where
  "all_activities_of rt field wk =
     (case field of
        ActivitiesString text \<Rightarrow>
          (case JSON_parse_activities rt text of
             Inl err \<Rightarrow> (Some [], say (LogParseWarning err) wk)
           | Inr parsed \<Rightarrow> (parsed, wk))
      | ActivitiesList acts \<Rightarrow> (Some acts, wk)
      | ActivitiesOther \<Rightarrow> (None, wk))"

text \<open>
  Lines 283 to 350: one sequence of a course. The slug is computed at line 283, before
  the \<open>try\<close> of the sequence: on a title that is not a string \<open>title.toLowerCase()\<close>
  throws a \<open>TypeError\<close> that no handler of the sequence catches, and \<open>Inl\<close> carries
  it out with the walk so far. Everything after line 283 stands inside the \<open>try\<close>.
\<close>

definition walk_sequence ::
  "runtime \<Rightarrow> world \<Rightarrow> string \<Rightarrow> string \<Rightarrow> walk \<Rightarrow> sequence_summary \<Rightarrow> error \<times> walk + walk" where
  "walk_sequence rt w locale cid wk sm =
     (case summary_title sm of
        None \<Rightarrow> Inl (Thrown ''TypeError'', wk)
      | Some title \<Rightarrow>
          Inr (let sequenceSlug = titleToSlug rt title;
                   wk1 = say LogFetchingSequence (say (LogProcessingSequence title sequenceSlug) wk);
                   wk2 = called (CallGetSequence cid sequenceSlug locale) wk1
               in case getSequence (w (calls wk)) cid sequenceSlug locale of
                    Inl sequenceError \<Rightarrow> say (LogSequenceFailed sequenceSlug sequenceError) wk2
                  | Inr sequenceData \<Rightarrow>
                      (case gql_data sequenceData of
                         None \<Rightarrow> say (LogNoSequenceData sequenceSlug) wk2
                       | Some sq \<Rightarrow>
                           (let (parsed, wk3) = all_activities_of rt (activities sq) wk2
                            in case parsed of
                                 None \<Rightarrow> say (LogNoActivities sequenceSlug) wk3
                               | Some [] \<Rightarrow> say (LogNoActivities sequenceSlug) wk3
                               | Some (a # as) \<Rightarrow>
                                   foldl (walk_activity rt w cid sq (length (a # as)))
                                     (say (LogFoundActivities (length (a # as))) wk3)
                                     (zip [0..<length (a # as)] (a # as))))))"

text \<open>Lines 282 to 351: the loop over the sequences of a course; a throw ends it.\<close>

fun walk_sequences ::
  "runtime \<Rightarrow> world \<Rightarrow> string \<Rightarrow> string \<Rightarrow> walk \<Rightarrow> sequence_summary list \<Rightarrow> error \<times> walk + walk" where
  "walk_sequences rt w locale cid wk [] = Inr wk"
| "walk_sequences rt w locale cid wk (sm # sms) =
     (case walk_sequence rt w locale cid wk sm of
        Inl thrown \<Rightarrow> Inl thrown
      | Inr wk' \<Rightarrow> walk_sequences rt w locale cid wk' sms)"

text \<open>Lines 271 to 352: one course.\<close>

definition walk_course ::
  "runtime \<Rightarrow> world \<Rightarrow> string \<Rightarrow> walk \<Rightarrow> course \<Rightarrow> error \<times> walk + walk" where
  "walk_course rt w locale wk c =
     (let wk1 = say (LogProcessingCourse (courseId c) (course_title c)) wk
      in case sequences c of
           None \<Rightarrow> Inr (say (LogNoSequences (courseId c)) wk1)
         | Some [] \<Rightarrow> Inr (say (LogNoSequences (courseId c)) wk1)
         | Some (sm # sms) \<Rightarrow> walk_sequences rt w locale (courseId c) wk1 (sm # sms))"

text \<open>Lines 271 to 352: the loop over the courses; a throw ends it.\<close>

fun walk_courses ::
  "runtime \<Rightarrow> world \<Rightarrow> string \<Rightarrow> walk \<Rightarrow> course list \<Rightarrow> error \<times> walk + walk" where
  "walk_courses rt w locale wk [] = Inr wk"
| "walk_courses rt w locale wk (c # cs) =
     (case walk_course rt w locale wk c of
        Inl thrown \<Rightarrow> Inl thrown
      | Inr wk' \<Rightarrow> walk_courses rt w locale wk' cs)"

text \<open>
  \<open>processAllProgress\<close>: \<open>Inl err\<close> when the promise rejects with \<open>err\<close> (the outer
  \<open>catch\<close> writes the error and throws it again), \<open>Inr ()\<close> when it resolves. The
  locale is \<open>fr-FR\<close> when the caller gives none.
\<close>

definition processAllProgress :: "runtime \<Rightarrow> world \<Rightarrow> string option \<Rightarrow> (error + unit) \<times> walk" where
  "processAllProgress rt w given =
     (let locale = (case given of None \<Rightarrow> ''fr-FR'' | Some l \<Rightarrow> l);
          wk0 = called (CallGetCoursesAndProgress locale)
                  \<lparr>console = [LogFetchingCourses], calls = []\<rparr>
      in case getCoursesAndProgress (w []) locale of
           Inl err \<Rightarrow> (Inl err, say (LogError err) wk0)
         | Inr coursesData \<Rightarrow>
             (case gql_data coursesData of
                None \<Rightarrow> (Inl (Error ''No courses found''), say (LogError (Error ''No courses found'')) wk0)
              | Some courses \<Rightarrow>
                  (case walk_courses rt w locale (say (LogFoundCourses (length courses)) wk0) courses of
                     Inl (err, wk) \<Rightarrow> (Inl err, say (LogError err) wk)
                   | Inr wk \<Rightarrow> (Inr (), say LogComplete wk))))"

section \<open>Concrete runtimes, worlds and selections\<close>

text \<open>
  Small concrete inputs on which the definitions are evaluated. The runtime
  lower-cases ASCII; its \<open>JSON.parse\<close> accepts the text \<open>{}\<close> only.
\<close>

definition ascii_runtime :: runtime where
  "ascii_runtime =
     \<lparr>toLowerCase = ascii_lower, normalizeNFD = (\<lambda>s. s),
      JSON_parse = (\<lambda>text. if text = ''{}'' then Inr (JObj []) else Inl (Thrown ''SyntaxError'')),
      JSON_parse_activities = (\<lambda>text. Inl (Thrown ''SyntaxError'')),
      JSON_stringify = (\<lambda>j. ''{}''),
      JSON_stringify_request = req_url\<rparr>"

definition ok_response :: "'a option \<Rightarrow> 'a http_response" where
  "ok_response d =
     \<lparr>res_status = 200, res_ok = True, res_text = Inr [],
      res_json = Inr \<lparr>gql_errors = None, gql_data = d\<rparr>\<rparr>"

definition rejected_response :: "json http_response" where
  "rejected_response =
     \<lparr>res_status = 403, res_ok = False, res_text = Inr ''Forbidden'',
      res_json = Inl (Thrown ''SyntaxError'')\<rparr>"

text \<open>
  An environment without a captured request: \<open>getSequence\<close> answers with \<open>sq\<close>, and
  the direct submission is accepted or rejected with status 403.
\<close>

definition plain_env :: "sequence option \<Rightarrow> bool \<Rightarrow> env" where
  "plain_env sq accepted =
     \<lparr>storage_session_get = Inr None,
      getTab = Inl (Thrown ''no tab''),
      executeScript = (\<lambda>tab reqStr. Inr []),
      userAgent = ''agent'',
      replay_uuid = (\<lambda>k. ''r''),
      replay_now = (\<lambda>k. ''now''),
      direct_uuid = (''a'', ''b''),
      direct_now = ''now'',
      fetch_getCoursesAndProgress = (\<lambda>locale. Inl (Thrown ''offline'')),
      fetch_getSequence = (\<lambda>cid slug locale. Inr (ok_response sq)),
      fetch_AddProgress = (\<lambda>variables. Inr (if accepted then ok_response (Some JNull)
                                              else rejected_response))\<rparr>"

text \<open>
  An environment with a captured request whose replay in the page is answered with
  status 500 and a body that carries GraphQL errors.
\<close>

definition captured_request :: request where
  "captured_request =
     \<lparr>req_url = ''https://gaia-server.rosettastone.com/graphql'', req_method = ''POST'',
      req_headers = [], req_body = Some ''{}''\<rparr>"

definition server_error_page :: page_result where
  "server_error_page = \<lparr>page_status = 500, page_ok = False, page_text = ''{\"errors\":[1]}''\<rparr>"

definition replay_env :: env where
  "replay_env =
     (plain_env None False)
       \<lparr>storage_session_get := Inr (Some captured_request),
        getTab := Inr 7,
        executeScript := (\<lambda>tab reqStr. Inr [Some server_error_page])\<rparr>"

definition step1 :: step where
  "step1 = \<lparr>activityStepId = ''st1''\<rparr>"

definition step2 :: step where
  "step2 = \<lparr>activityStepId = ''st2''\<rparr>"

definition activity_with :: "step list option \<Rightarrow> activity" where
  "activity_with sts = \<lparr>activityId = ''a1'', activityType = ''speak'', steps = sts\<rparr>"

definition sequence_with :: "activities_field \<Rightarrow> sequence" where
  "sequence_with field = \<lparr>sequenceId = ''s1'', activities = field\<rparr>"

text \<open>The selection: one selected sequence titled \<open>Saludos\<close> with one selected activity.\<close>

definition selected_a1 :: Activity where
  "selected_a1 = \<lparr>act_activityId = ''a1'', act_activityType = ''speak'', act_selected = True\<rparr>"

definition saludos_item :: SequenceItem where
  "saludos_item =
     \<lparr>item_courseId = ''c1'', item_courseName = of_ascii ''Intro'', item_sequenceId = ''s1'',
      item_sequenceTitle = of_ascii ''Saludos'', item_selected = True, item_expanded = True,
      item_activities = [selected_a1], item_loading = False\<rparr>"

definition one_selected :: "SequenceItem list" where
  "one_selected = [saludos_item]"

definition empty_form :: form where
  "empty_form =
     \<lparr>form_error = None, form_processing = False, form_result = None, form_onError = []\<rparr>"

text \<open>Whether a call resolved.\<close>

definition resolved :: "error + 'a \<Rightarrow> bool" where
  "resolved r = (case r of Inl _ \<Rightarrow> False | Inr _ \<Rightarrow> True)"

text \<open>The calls the step loop of an activity makes, one per step.\<close>

definition step_calls :: "string \<Rightarrow> string \<Rightarrow> string \<Rightarrow> step list \<Rightarrow> call list" where
  "step_calls cid sid aid sts =
     map (\<lambda>st. CallAddProgressForActivity cid sid aid (activityStepId st) 1) sts"

text \<open>The world that behaves the same whatever was called before.\<close>

definition always :: "env \<Rightarrow> world" where
  "always e tr = e"

text \<open>The world whose first submission is rejected and whose later ones are accepted.\<close>

definition first_rejected :: world where
  "first_rejected tr = plain_env None (tr \<noteq> [])"

text \<open>A selected sequence in which no activity is selected.\<close>

definition nothing_selected :: "SequenceItem list" where
  "nothing_selected = [saludos_item\<lparr>item_activities := [selected_a1\<lparr>act_selected := False\<rparr>]\<rparr>]"

definition batch0 :: batch where
  "batch0 = \<lparr>successCount = 0, errorCount = 0, report = [], trace = []\<rparr>"

text \<open>
  A world for the walk: one course with the sequences \<open>Saludos\<close> and \<open>Adios\<close>; the
  fetch of the first is refused by the network, the second has an activity with two
  steps and an activity without steps, and every submission is rejected.
\<close>

definition two_activities :: "activity list" where
  "two_activities =
     [activity_with (Some [step1, step2]),
      \<lparr>activityId = ''a2'', activityType = ''read'', steps = None\<rparr>]"

definition intro_course :: course where
  "intro_course =
     \<lparr>courseId = ''c1'', course_title = of_ascii ''Intro'',
      sequences = Some [\<lparr>summary_id = ''s1'', summary_title = Some (of_ascii ''Saludos'')\<rparr>,
                        \<lparr>summary_id = ''s2'', summary_title = Some (of_ascii ''Adios'')\<rparr>]\<rparr>"

definition walk_env :: env where
  "walk_env =
     (plain_env None False)
       \<lparr>fetch_getCoursesAndProgress := (\<lambda>locale. Inr (ok_response (Some [intro_course]))),
        fetch_getSequence :=
          (\<lambda>cid slug locale.
             if slug = of_ascii ''saludos'' then Inl (Thrown ''offline'')
             else Inr (ok_response (Some (sequence_with (ActivitiesList two_activities)))))\<rparr>"

definition walk0 :: walk where
  "walk0 = \<lparr>console = [], calls = []\<rparr>"

text \<open>
  A world whose course lists, before \<open>Adios\<close>, a sequence whose title is null.
\<close>

definition untitled_course :: course where
  "untitled_course =
     \<lparr>courseId = ''c1'', course_title = of_ascii ''Intro'',
      sequences = Some [\<lparr>summary_id = ''s1'', summary_title = None\<rparr>,
                        \<lparr>summary_id = ''s2'', summary_title = Some (of_ascii ''Adios'')\<rparr>]\<rparr>"

definition untitled_env :: env where
  "untitled_env =
     walk_env\<lparr>fetch_getCoursesAndProgress := (\<lambda>locale. Inr (ok_response (Some [untitled_course])))\<rparr>"

text \<open>
  An environment with a captured request whose execution in the page comes back
  without a result, and whose direct submission would be accepted.
\<close>

definition no_result_env :: env where
  "no_result_env =
     (plain_env None True)
       \<lparr>storage_session_get := Inr (Some captured_request),
        getTab := Inr 7,
        executeScript := (\<lambda>tab reqStr. Inr [None])\<rparr>"

section \<open>Properties\<close>

lemma not_alnum_dash: "\<not> is_alnum dash" by (simp add: is_alnum_def dash_def)

lemma slug_char_alt: "slug_char c = (is_alnum c \<or> c = dash)"
  by (auto simp: slug_char_def is_alnum_def is_lower_ascii_def is_digit_ascii_def)

lemma slug_char_not_mark: "slug_char c \<Longrightarrow> \<not> is_combining_mark c"
  by (auto simp: slug_char_def is_lower_ascii_def is_digit_ascii_def is_combining_mark_def
      dash_def word_le_nat_alt)

lemma replace_chars: "list_all slug_char (replace_non_alnum s)"
  by (induction s rule: replace_non_alnum.induct) (auto simp: slug_char_alt)

lemma replace_hd:
  "s \<noteq> [] \<Longrightarrow> is_alnum (hd s) \<Longrightarrow> replace_non_alnum s \<noteq> [] \<and> hd (replace_non_alnum s) = hd s"
  by (cases s) auto

lemma dropWhile_hd: "dropWhile P s \<noteq> [] \<Longrightarrow> \<not> P (hd (dropWhile P s))"
  by (simp add: hd_dropWhile)

lemma replace_single: "single_dashes (replace_non_alnum s)"
proof (induction s rule: replace_non_alnum.induct)
  case 1
  then show ?case by simp
next
  case (2 c cs)
  show ?case
  proof (cases "is_alnum c")
    case True
    with 2 show ?thesis
      by (cases "replace_non_alnum cs") (auto simp: not_alnum_dash)
  next
    case False
    let ?r = "dropWhile (\<lambda>d. \<not> is_alnum d) cs"
    have ih: "single_dashes (replace_non_alnum ?r)" using 2 False by simp
    have unfold: "replace_non_alnum (c # cs) = dash # replace_non_alnum ?r"
      using False by simp
    show ?thesis
    proof (cases "?r = []")
      case True
      show ?thesis unfolding unfold True by simp
    next
      case nonempty: False
      then have "is_alnum (hd ?r)" using dropWhile_hd [of "\<lambda>d. \<not> is_alnum d" cs] by simp
      with nonempty have "replace_non_alnum ?r \<noteq> [] \<and> hd (replace_non_alnum ?r) = hd ?r"
        by (rule replace_hd)
      with \<open>is_alnum (hd ?r)\<close> ih show ?thesis unfolding unfold
        by (cases "replace_non_alnum ?r") (auto simp: not_alnum_dash)
    qed
  qed
qed


lemma replace_fix:
  "list_all slug_char s \<Longrightarrow> single_dashes s \<Longrightarrow> replace_non_alnum s = s"
proof (induction s rule: replace_non_alnum.induct)
  case 1
  then show ?case by simp
next
  case (2 c cs)
  have tl_single: "single_dashes cs" using "2.prems"(2) by (cases cs) auto
  have tl_chars: "list_all slug_char cs" using "2.prems"(1) by simp
  show ?case
  proof (cases "is_alnum c")
    case True
    with 2 tl_single tl_chars show ?thesis by simp
  next
    case False
    then have "c = dash" using "2.prems"(1) by (simp add: slug_char_alt)
    have drop: "dropWhile (\<lambda>d. \<not> is_alnum d) cs = cs"
    proof (cases cs)
      case Nil
      then show ?thesis by simp
    next
      case (Cons d ds)
      with "2.prems" \<open>c = dash\<close> have "d \<noteq> dash" "slug_char d" by auto
      then have "is_alnum d" by (simp add: slug_char_alt)
      with Cons show ?thesis by simp
    qed
    have "replace_non_alnum cs = cs"
      using "2.IH"(2) [OF False] tl_chars tl_single unfolding drop by simp
    with False drop \<open>c = dash\<close> show ?thesis by simp
  qed
qed

lemma remove_accents_fix: "list_all slug_char s \<Longrightarrow> remove_accents s = s"
  by (induction s) (auto simp: remove_accents_def slug_char_not_mark)

lemma single_dashes_tl: "single_dashes (c # cs) \<Longrightarrow> single_dashes cs"
  by (cases cs) auto

lemma single_dashes_butlast: "single_dashes s \<Longrightarrow> single_dashes (butlast s)"
  by (induction s rule: single_dashes.induct) (auto split: if_splits)

lemma single_dashes_last:
  "single_dashes s \<Longrightarrow> s \<noteq> [] \<Longrightarrow> last s = dash \<Longrightarrow> butlast s \<noteq> [] \<Longrightarrow> last (butlast s) \<noteq> dash"
  by (induction s rule: single_dashes.induct) (auto split: if_splits)

lemma trim_chars: "list_all slug_char s \<Longrightarrow> list_all slug_char (trim_dashes s)"
  by (auto simp: trim_dashes_def Let_def list_all_iff split: list.splits dest: in_set_butlastD)

lemma trim_alt:
  "trim_dashes s =
     (if drop_leading s \<noteq> [] \<and> last (drop_leading s) = dash then butlast (drop_leading s)
      else drop_leading s)"
  by (simp add: trim_dashes_def drop_leading_def Let_def)

lemma drop_leading_single: "single_dashes s \<Longrightarrow> single_dashes (drop_leading s)"
  by (auto simp: drop_leading_def split: list.splits dest: single_dashes_tl)

lemma drop_leading_hd:
  "single_dashes s \<Longrightarrow> drop_leading s \<noteq> [] \<Longrightarrow> hd (drop_leading s) \<noteq> dash"
  by (cases s rule: single_dashes.cases) (auto simp: drop_leading_def)

lemma trim_single: "single_dashes s \<Longrightarrow> single_dashes (trim_dashes s)"
  by (simp add: trim_alt drop_leading_single single_dashes_butlast)

lemma hd_butlast: "butlast s \<noteq> [] \<Longrightarrow> hd (butlast s) = hd s"
  by (cases s) (auto split: if_splits)

lemma no_outer_dash_alt: "no_outer_dash s = (s = [] \<or> (hd s \<noteq> dash \<and> last s \<noteq> dash))"
  by (cases s) (auto simp: no_outer_dash_def)

lemma trim_outer: "single_dashes s \<Longrightarrow> no_outer_dash (trim_dashes s)"
proof -
  assume s: "single_dashes s"
  let ?d = "drop_leading s"
  have d: "single_dashes ?d" using s by (rule drop_leading_single)
  show ?thesis
  proof (cases "?d \<noteq> [] \<and> last ?d = dash")
    case True
    then have "butlast ?d \<noteq> [] \<Longrightarrow> last (butlast ?d) \<noteq> dash"
      using single_dashes_last [OF d] by simp
    moreover have "butlast ?d \<noteq> [] \<Longrightarrow> hd (butlast ?d) \<noteq> dash"
      using drop_leading_hd [OF s] True by (simp add: hd_butlast)
    ultimately show ?thesis using True by (auto simp: trim_alt no_outer_dash_alt)
  next
    case False
    then show ?thesis using drop_leading_hd [OF s] by (auto simp: trim_alt no_outer_dash_alt)
  qed
qed

lemma trim_fix: "no_outer_dash s \<Longrightarrow> trim_dashes s = s"
  by (cases s) (auto simp: trim_dashes_def no_outer_dash_def Let_def)

lemma slug_shape:
  "list_all slug_char (titleToSlug lib x) \<and> single_dashes (titleToSlug lib x)
     \<and> no_outer_dash (titleToSlug lib x)"
  by (simp add: titleToSlug_def trim_chars replace_chars trim_single replace_single trim_outer)

text \<open>
  Claim C8. For every title, \<open>titleToSlug\<close> applied to a slug gives the slug back, and a
  slug consists of lower-case ASCII letters, digits and dashes only, has no two dashes
  in a row, and neither starts nor ends with a dash. The runtime is any one whose
  \<open>toLowerCase\<close> and \<open>normalize\<close> leave such strings unchanged.
\<close>

theorem titleToSlug_idempotent_shape:
  assumes "lib_fixes_slugs lib"
  shows "titleToSlug lib (titleToSlug lib x) = titleToSlug lib x
     \<and> list_all slug_char (titleToSlug lib x)
     \<and> single_dashes (titleToSlug lib x)
     \<and> no_outer_dash (titleToSlug lib x)"
proof -
  let ?s = "titleToSlug lib x"
  have shape: "list_all slug_char ?s" "single_dashes ?s" "no_outer_dash ?s"
    using slug_shape [of lib x] by simp_all
  have "toLowerCase lib ?s = ?s" "normalizeNFD lib ?s = ?s"
    using assms shape(1) by (simp_all add: lib_fixes_slugs_def)
  then have "titleToSlug lib ?s = trim_dashes (replace_non_alnum (remove_accents ?s))"
    by (simp add: titleToSlug_def)
  also have "\<dots> = ?s"
    using shape by (simp add: remove_accents_fix replace_fix trim_fix)
  finally show ?thesis using shape by simp
qed

lemma ascii_lib_fixes_slugs: "lib_fixes_slugs ascii_lib"
  unfolding lib_fixes_slugs_def ascii_lib_def ascii_lower_def
  by (auto simp: list_all_iff slug_char_def is_lower_ascii_def is_digit_ascii_def dash_def
      word_le_nat_alt intro!: map_idI)

theorem titleToSlug_idempotent_shape_witness:
  "lib_fixes_slugs ascii_lib
   \<and> titleToSlug ascii_lib (of_ascii ''Concertar una cita'') = of_ascii ''concertar-una-cita''
   \<and> titleToSlug ascii_lib (titleToSlug ascii_lib (of_ascii ''Concertar una cita''))
       = of_ascii ''concertar-una-cita''
   \<and> list_all slug_char (of_ascii ''concertar-una-cita'')
   \<and> single_dashes (of_ascii ''concertar-una-cita'')
   \<and> no_outer_dash (of_ascii ''concertar-una-cita'')"
proof -
  have ex: "titleToSlug ascii_lib (of_ascii ''Concertar una cita'') = of_ascii ''concertar-una-cita''"
    by (simp add: titleToSlug_def ascii_lib_def ascii_lower_def of_ascii_def remove_accents_def
        is_combining_mark_def is_alnum_def trim_dashes_def dash_def)
  show ?thesis
    using titleToSlug_idempotent_shape [OF ascii_lib_fixes_slugs, of "of_ascii ''Concertar una cita''"]
      ascii_lib_fixes_slugs
    unfolding ex by simp
qed


lemma token_present: "YOUR_AUTH_TOKEN \<noteq> []"
  by (simp add: YOUR_AUTH_TOKEN_def)

lemma foldl_total:
  "foldl (\<lambda>total item.
            if item_selected item then total + length (filter act_selected (item_activities item))
            else total) n items
   = n + (\<Sum>item\<leftarrow>filter item_selected items. length (filter act_selected (item_activities item)))"
  by (induction items arbitrary: n) auto

lemma totalActivities_sum:
  "totalActivities items =
     (\<Sum>item\<leftarrow>filter item_selected items. length (filter act_selected (item_activities item)))"
  by (simp add: totalActivities_def foldl_total)

lemma submit_steps_batch:
  "snd (submit_steps rt w cid sid aid sts (n, b)) = b\<lparr>trace := trace b @ step_calls cid sid aid sts\<rparr>"
  by (induction sts arbitrary: n b) (auto simp: step_calls_def Let_def split: sum.splits)

lemma upt_Suc_shift: "[0..<Suc m] = 0 # map Suc [0..<m]"
  by (simp add: upt_conv_Cons map_Suc_upt del: upt_Suc)

lemma length_filter_map: "length (filter P (map f xs)) = length (filter (\<lambda>x. P (f x)) xs)"
  by (induction xs) auto

lemma submit_steps_count:
  "fst (submit_steps rt w cid sid aid sts (n, b)) =
     n + length (filter
           (\<lambda>k. resolved (addProgressForActivity rt
                   (w (trace b @ step_calls cid sid aid (take k sts)))
                   cid sid aid (activityStepId (sts ! k)) 1))
           [0..<length sts])"
proof (induction sts arbitrary: n b)
  case Nil
  then show ?case by simp
next
  case (Cons st sts)
  let ?b' = "b\<lparr>trace := trace b @ [CallAddProgressForActivity cid sid aid (activityStepId st) 1]\<rparr>"
  have shift: "length (filter
           (\<lambda>k. resolved (addProgressForActivity rt
                   (w (trace b @ step_calls cid sid aid (take k (st # sts))))
                   cid sid aid (activityStepId ((st # sts) ! k)) 1))
           (map Suc [0..<length sts]))
     = length (filter
           (\<lambda>k. resolved (addProgressForActivity rt
                   (w (trace ?b' @ step_calls cid sid aid (take k sts)))
                   cid sid aid (activityStepId (sts ! k)) 1))
           [0..<length sts])"
    by (simp add: filter_map comp_def step_calls_def)
  show ?case
  proof (cases "addProgressForActivity rt (w (trace b)) cid sid aid (activityStepId st) 1")
    case (Inl err)
    then show ?thesis
      using Cons.IH [of n ?b'] shift
      by (simp add: upt_Suc_shift resolved_def step_calls_def Let_def del: upt_Suc)
  next
    case (Inr r)
    then show ?thesis
      using Cons.IH [of "Suc n" ?b'] shift
      by (simp add: upt_Suc_shift resolved_def step_calls_def Let_def del: upt_Suc)
  qed
qed


text \<open>
  Claim C6. When the selected activities of the selected sequences add up to zero, the
  handler sets the validation message and returns: the rest of the form is untouched
  and no API function has been called, so no sequence was fetched and nothing submitted.
\<close>

theorem handleProcessSelected_nothing_selected:
  assumes "(\<Sum>item\<leftarrow>filter item_selected items.
              length (filter act_selected (item_activities item))) = 0"
  shows "handleProcessSelected rt w items f =
           (f\<lparr>form_error := Some ''Please select at least one activity in a sequence''\<rparr>, [])"
  using assms by (simp add: handleProcessSelected_def totalActivities_sum)

theorem handleProcessSelected_nothing_selected_witness:
  "(\<Sum>item\<leftarrow>filter item_selected nothing_selected.
       length (filter act_selected (item_activities item))) = 0
   \<and> handleProcessSelected ascii_runtime (always (plain_env None True)) nothing_selected empty_form =
       (empty_form\<lparr>form_error := Some ''Please select at least one activity in a sequence''\<rparr>, [])"
proof -
  have zero: "(\<Sum>item\<leftarrow>filter item_selected nothing_selected.
       length (filter act_selected (item_activities item))) = 0"
    by (simp add: nothing_selected_def saludos_item_def selected_a1_def)
  show ?thesis
    using handleProcessSelected_nothing_selected [OF zero] zero by simp
qed


lemma slug_saludos: "titleToSlug ascii_runtime (of_ascii ''Saludos'') = of_ascii ''saludos''"
  by (simp add: titleToSlug_def ascii_runtime_def ascii_lower_def of_ascii_def remove_accents_def
      is_combining_mark_def is_alnum_def trim_dashes_def dash_def)

lemma of_ascii_nonempty: "of_ascii (c # cs) \<noteq> []"
  by (simp add: of_ascii_def)

text \<open>
  Claim C5. For a selected activity that is found with a step list, whatever the world
  answers to the submissions: \<open>successCount\<close> grows by exactly one, \<open>errorCount\<close> does
  not change, and every step of the list is submitted, in order.
\<close>

theorem step_loop_counts_activity_once:
  assumes "find (\<lambda>a. activityId a = act_activityId selectedAct) acts = Some act"
    and "steps act = Some sts"
    and "after = snd (process_selected_activity rt w item sq acts selectedAct (n, b))"
  shows "successCount after = successCount b + 1
     \<and> errorCount after = errorCount b
     \<and> trace after = trace b @ step_calls (item_courseId item) (sequenceId sq) (activityId act) sts"
proof -
  obtain n' b' where run:
    "submit_steps rt w (item_courseId item) (sequenceId sq) (activityId act) sts (n, b) = (n', b')"
    by (cases "submit_steps rt w (item_courseId item) (sequenceId sq) (activityId act) sts (n, b)")
  have "b' = b\<lparr>trace := trace b @ step_calls (item_courseId item) (sequenceId sq) (activityId act) sts\<rparr>"
    using submit_steps_batch [of rt w "item_courseId item" "sequenceId sq" "activityId act" sts n b] run
    by simp
  then show ?thesis
    using assms run by (simp add: process_selected_activity_def)
qed

text \<open>
  Claim C1, as amended. The step loop submits every step once, and \<open>stepsProcessed\<close>
  grows by the number of those submissions that resolve; a submission that throws
  leaves the counter as it is.
\<close>

theorem stepsProcessed_counts_resolved_steps:
  "submit_steps rt w cid sid aid sts (n, b) =
     (n + length (filter
            (\<lambda>k. resolved (addProgressForActivity rt
                    (w (trace b @ step_calls cid sid aid (take k sts)))
                    cid sid aid (activityStepId (sts ! k)) 1))
            [0..<length sts]),
      b\<lparr>trace := trace b @ step_calls cid sid aid sts\<rparr>)"
  using submit_steps_count [of rt w cid sid aid sts n b] submit_steps_batch [of rt w cid sid aid sts n b]
  by (cases "submit_steps rt w cid sid aid sts (n, b)") simp

lemma replay_not_returned:
  assumes "storage_session_get e = Inl err
      \<or> storage_session_get e = Inr None
      \<or> (storage_session_get e = Inr (Some storedReq)
          \<and> (req_body storedReq = None \<or> req_body storedReq = Some []))
      \<or> (storage_session_get e = Inr (Some storedReq) \<and> req_body storedReq = Some b
          \<and> JSON_parse rt b = Inl err)
      \<or> (storage_session_get e = Inr (Some storedReq) \<and> req_body storedReq = Some b
          \<and> JSON_parse rt b = Inr bodyObj
          \<and> update_body e cid sid aid stid score bodyObj = Inl err)
      \<or> (storage_session_get e = Inr (Some storedReq) \<and> req_body storedReq = Some b
          \<and> JSON_parse rt b = Inr bodyObj
          \<and> update_body e cid sid aid stid score bodyObj = Inr bodyObj'
          \<and> getTab e = Inl err)
      \<or> (storage_session_get e = Inr (Some storedReq) \<and> req_body storedReq = Some b
          \<and> JSON_parse rt b = Inr bodyObj
          \<and> update_body e cid sid aid stid score bodyObj = Inr bodyObj'
          \<and> getTab e = Inr tab
          \<and> executeScript e tab
                (JSON_stringify_request rt
                   (storedReq\<lparr>req_body := Some (JSON_stringify rt bodyObj')\<rparr>)) = Inl err)"
  shows "replay_stored_request rt e cid sid aid stid score = Inl err
     \<or> replay_stored_request rt e cid sid aid stid score = Inr None"
  using assms
  by (auto simp: replay_stored_request_def Let_def split: sum.splits option.splits)

lemma addProgress_without_replay:
  assumes "cid \<noteq> []" "sid \<noteq> []" "aid \<noteq> []" "stid \<noteq> []"
    and "replay_stored_request rt e cid sid aid stid score = Inl err
       \<or> replay_stored_request rt e cid sid aid stid score = Inr None"
  shows "addProgressForActivity rt e cid sid aid stid score =
           (case direct_fetch e cid sid aid stid score of
              Inl x \<Rightarrow> Inl x
            | Inr payload \<Rightarrow> Inr (Payload payload))"
  using assms by (auto simp: addProgressForActivity_def token_present)

lemma addProgress_error_is_direct:
  assumes "cid \<noteq> []" "sid \<noteq> []" "aid \<noteq> []" "stid \<noteq> []"
    and "addProgressForActivity rt e cid sid aid stid score = Inl x"
  shows "direct_fetch e cid sid aid stid score = Inl x"
  using assms
  by (auto simp: addProgressForActivity_def token_present split: sum.splits option.splits)

lemma addProgress_no_result:
  assumes "cid \<noteq> []" "sid \<noteq> []" "aid \<noteq> []" "stid \<noteq> []"
    and "storage_session_get e = Inr (Some storedReq) \<and> req_body storedReq = Some b \<and> b \<noteq> []
      \<and> JSON_parse rt b = Inr bodyObj
      \<and> update_body e cid sid aid stid score bodyObj = Inr bodyObj'
      \<and> getTab e = Inr tab
      \<and> (executeScript e tab
             (JSON_stringify_request rt
                (storedReq\<lparr>req_body := Some (JSON_stringify rt bodyObj')\<rparr>)) = Inr []
          \<or> executeScript e tab
             (JSON_stringify_request rt
                (storedReq\<lparr>req_body := Some (JSON_stringify rt bodyObj')\<rparr>)) = Inr (None # rs))"
  shows "addProgressForActivity rt e cid sid aid stid score = Inr (InPage None)"
  using assms
  by (auto simp: addProgressForActivity_def replay_stored_request_def token_present)

text \<open>
  Claim C7, as amended. With the four identifiers non-empty: when the storage read
  throws, nothing or no body is stored, the body does not parse, the rewriting of the
  body throws, no tab is found, or the execution in the page throws, the result of
  \<open>addProgressForActivity\<close> is that of the direct request; whenever
  \<open>addProgressForActivity\<close> throws, the direct request has thrown that error; and when
  the execution in the page comes back with no result, the undefined result is
  returned as it is, without a direct request.
\<close>

theorem replay_failure_falls_back:
  assumes "cid \<noteq> []" "sid \<noteq> []" "aid \<noteq> []" "stid \<noteq> []"
  shows "(storage_session_get e = Inl err
      \<or> storage_session_get e = Inr None
      \<or> (storage_session_get e = Inr (Some storedReq)
          \<and> (req_body storedReq = None \<or> req_body storedReq = Some []))
      \<or> (storage_session_get e = Inr (Some storedReq) \<and> req_body storedReq = Some b
          \<and> JSON_parse rt b = Inl err)
      \<or> (storage_session_get e = Inr (Some storedReq) \<and> req_body storedReq = Some b
          \<and> JSON_parse rt b = Inr bodyObj
          \<and> update_body e cid sid aid stid score bodyObj = Inl err)
      \<or> (storage_session_get e = Inr (Some storedReq) \<and> req_body storedReq = Some b
          \<and> JSON_parse rt b = Inr bodyObj
          \<and> update_body e cid sid aid stid score bodyObj = Inr bodyObj'
          \<and> getTab e = Inl err)
      \<or> (storage_session_get e = Inr (Some storedReq) \<and> req_body storedReq = Some b
          \<and> JSON_parse rt b = Inr bodyObj
          \<and> update_body e cid sid aid stid score bodyObj = Inr bodyObj'
          \<and> getTab e = Inr tab
          \<and> executeScript e tab
                (JSON_stringify_request rt
                   (storedReq\<lparr>req_body := Some (JSON_stringify rt bodyObj')\<rparr>)) = Inl err)
      \<longrightarrow> addProgressForActivity rt e cid sid aid stid score =
            (case direct_fetch e cid sid aid stid score of
               Inl x \<Rightarrow> Inl x
             | Inr payload \<Rightarrow> Inr (Payload payload)))
     \<and> (\<forall>x. addProgressForActivity rt e cid sid aid stid score = Inl x
            \<longrightarrow> direct_fetch e cid sid aid stid score = Inl x)
     \<and> (storage_session_get e = Inr (Some storedReq) \<and> req_body storedReq = Some b \<and> b \<noteq> []
      \<and> JSON_parse rt b = Inr bodyObj
      \<and> update_body e cid sid aid stid score bodyObj = Inr bodyObj'
      \<and> getTab e = Inr tab
      \<and> (executeScript e tab
             (JSON_stringify_request rt
                (storedReq\<lparr>req_body := Some (JSON_stringify rt bodyObj')\<rparr>)) = Inr []
          \<or> executeScript e tab
             (JSON_stringify_request rt
                (storedReq\<lparr>req_body := Some (JSON_stringify rt bodyObj')\<rparr>)) = Inr (None # rs))
      \<longrightarrow> addProgressForActivity rt e cid sid aid stid score = Inr (InPage None))"
  using assms replay_not_returned [of e err storedReq b rt bodyObj cid sid aid stid score bodyObj' tab]
    addProgress_without_replay [of cid sid aid stid rt e score err]
    addProgress_error_is_direct [of cid sid aid stid rt e score]
    addProgress_no_result [of cid sid aid stid e storedReq b rt bodyObj score bodyObj' tab rs]
  by blast

lemma ascii_runtime_fields:
  "JSON_parse ascii_runtime ''{}'' = Inr (JObj [])"
  "JSON_parse_activities ascii_runtime text = Inl (Thrown ''SyntaxError'')"
  "JSON_stringify ascii_runtime j = ''{}''"
  "JSON_stringify_request ascii_runtime = req_url"
  by (simp_all add: ascii_runtime_def)

lemmas eval_defs =
  handleProcessSelected_def totalActivities_def process_item_def process_selected_activity_def
  selected_activities_of_def getSequence_def addProgressForActivity_def replay_stored_request_def
  direct_fetch_def check_response_def plain_env_def ok_response_def rejected_response_def
  always_def one_selected_def saludos_item_def selected_a1_def empty_form_def sequence_with_def activity_with_def step1_def step2_def
  token_present slug_saludos of_ascii_nonempty ascii_runtime_fields Let_def batch0_def first_rejected_def

text \<open>
  Claim C1 as stated fails: with two steps whose submissions are both rejected, two
  attempts are made and the line of the sequence reports zero steps.
\<close>

theorem stepsProcessed_counterexample:
  "handleProcessSelected ascii_runtime
     (always (plain_env (Some (sequence_with (ActivitiesList [activity_with (Some [step1, step2])]))) False))
     one_selected empty_form =
   (empty_form\<lparr>form_result :=
        Some [Processing 1, SequenceDone (of_ascii ''Intro'') (of_ascii ''Saludos'') 0 1, Complete 1 0]\<rparr>,
    [CallGetSequence ''c1'' (of_ascii ''saludos'') ''fr-FR'',
     CallAddProgressForActivity ''c1'' ''s1'' ''a1'' ''st1'' 1,
     CallAddProgressForActivity ''c1'' ''s1'' ''a1'' ''st2'' 1])"
  by (simp add: eval_defs)

text \<open>
  Claim C2. An activity whose \<open>steps\<close> is the empty list takes the branch of the step
  loop: no submission is made (the only call is the fetch of the sequence) and the
  activity is counted as a success, in a world that would have rejected the submission.
\<close>

theorem empty_steps_no_submission:
  "handleProcessSelected ascii_runtime
     (always (plain_env (Some (sequence_with (ActivitiesList [activity_with (Some [])]))) False))
     one_selected empty_form =
   (empty_form\<lparr>form_result :=
        Some [Processing 1, SequenceDone (of_ascii ''Intro'') (of_ascii ''Saludos'') 0 1, Complete 1 0]\<rparr>,
    [CallGetSequence ''c1'' (of_ascii ''saludos'') ''fr-FR''])"
  by (simp add: eval_defs)

text \<open>
  Claim C3. In the selected-batch engine an \<open>activities\<close> string that \<open>JSON.parse\<close>
  rejects is caught by the handler of the sequence: a failure line is written and the
  selected activity is counted as failed. On the same answer \<open>processAllProgress\<close>
  writes a warning, finds no activities and records no failure of the sequence.
\<close>

theorem unparsable_activities_fail_sequence:
  "handleProcessSelected ascii_runtime
     (always (plain_env (Some (sequence_with (ActivitiesString ''oops''))) True))
     one_selected empty_form =
   (empty_form\<lparr>form_result :=
        Some [Processing 1,
              SequenceError (of_ascii ''Intro'') (of_ascii ''Saludos'') (Thrown ''SyntaxError''),
              Complete 0 1]\<rparr>,
    [CallGetSequence ''c1'' (of_ascii ''saludos'') ''fr-FR''])
   \<and> walk_sequence ascii_runtime
        (always (plain_env (Some (sequence_with (ActivitiesString ''oops''))) True))
        ''fr-FR'' ''c1'' walk0
        \<lparr>summary_id = ''s1'', summary_title = Some (of_ascii ''Saludos'')\<rparr> =
      Inr \<lparr>console = [LogProcessingSequence (of_ascii ''Saludos'') (of_ascii ''saludos''),
                       LogFetchingSequence,
                       LogParseWarning (Thrown ''SyntaxError''),
                       LogNoActivities (of_ascii ''saludos'')],
           calls = [CallGetSequence ''c1'' (of_ascii ''saludos'') ''fr-FR'']\<rparr>"
  by (simp add: eval_defs walk_sequence_def all_activities_of_def say_def called_def walk0_def)


theorem step_loop_counts_activity_once_witness:
  "find (\<lambda>a. activityId a = act_activityId selected_a1) [activity_with (Some [step1, step2])]
     = Some (activity_with (Some [step1, step2]))
   \<and> steps (activity_with (Some [step1, step2])) = Some [step1, step2]
   \<and> successCount (snd (process_selected_activity ascii_runtime first_rejected saludos_item
        (sequence_with ActivitiesOther) [activity_with (Some [step1, step2])] selected_a1 (0, batch0))) = 1
   \<and> errorCount (snd (process_selected_activity ascii_runtime first_rejected saludos_item
        (sequence_with ActivitiesOther) [activity_with (Some [step1, step2])] selected_a1 (0, batch0))) = 0
   \<and> trace (snd (process_selected_activity ascii_runtime first_rejected saludos_item
        (sequence_with ActivitiesOther) [activity_with (Some [step1, step2])] selected_a1 (0, batch0)))
       = [CallAddProgressForActivity ''c1'' ''s1'' ''a1'' ''st1'' 1,
          CallAddProgressForActivity ''c1'' ''s1'' ''a1'' ''st2'' 1]
   \<and> resolved (addProgressForActivity ascii_runtime (first_rejected []) ''c1'' ''s1'' ''a1'' ''st1'' 1) = False"
proof -
  have found: "find (\<lambda>a. activityId a = act_activityId selected_a1) [activity_with (Some [step1, step2])]
     = Some (activity_with (Some [step1, step2]))"
    by (simp add: selected_a1_def activity_with_def)
  have sts: "steps (activity_with (Some [step1, step2])) = Some [step1, step2]"
    by (simp add: activity_with_def)
  have rejected: "resolved (addProgressForActivity ascii_runtime (first_rejected []) ''c1'' ''s1'' ''a1'' ''st1'' 1) = False"
    by (simp add: eval_defs resolved_def)
  show ?thesis
    using step_loop_counts_activity_once [OF found sts refl, of ascii_runtime first_rejected saludos_item
        "sequence_with ActivitiesOther" 0 batch0] found sts rejected
    by (simp add: step_calls_def saludos_item_def sequence_with_def activity_with_def step1_def
        step2_def batch0_def)
qed

theorem replay_failure_falls_back_witness:
  "storage_session_get ((plain_env None True)\<lparr>storage_session_get := Inl (Thrown ''storage'')\<rparr>)
     = Inl (Thrown ''storage'')
   \<and> addProgressForActivity ascii_runtime
        ((plain_env None True)\<lparr>storage_session_get := Inl (Thrown ''storage'')\<rparr>)
        ''c1'' ''s1'' ''a1'' ''st1'' 1
       = Inr (Payload \<lparr>gql_errors = None, gql_data = Some JNull\<rparr>)
   \<and> addProgressForActivity ascii_runtime (plain_env None False) ''c1'' ''s1'' ''a1'' ''st1'' 1
       = Inl (HttpError 403 ''Forbidden'')
   \<and> direct_fetch (plain_env None False) ''c1'' ''s1'' ''a1'' ''st1'' 1
       = Inl (HttpError 403 ''Forbidden'')
   \<and> storage_session_get no_result_env = Inr (Some captured_request)
   \<and> getTab no_result_env = Inr 7
   \<and> executeScript no_result_env 7 (req_url captured_request) = Inr [None]
   \<and> addProgressForActivity ascii_runtime no_result_env ''c1'' ''s1'' ''a1'' ''st1'' 1
       = Inr (InPage None)"
proof -
  let ?body = "JObj [(''variables'',
                  JObj [(''messages'',
                     JArr [new_message (userAgent no_result_env) ''c1'' ''s1'' ''a1''
                             (replay_uuid no_result_env 0) ''st1'' (replay_uuid no_result_env 1) 1
                             (replay_now no_result_env 0)])])]"
  have ids: "''c1'' \<noteq> []" "''s1'' \<noteq> []" "''a1'' \<noteq> []" "''st1'' \<noteq> []"
    by simp_all
  have storage: "storage_session_get ((plain_env None True)\<lparr>storage_session_get := Inl (Thrown ''storage'')\<rparr>)
     = Inl (Thrown ''storage'')"
    by simp
  have direct: "direct_fetch ((plain_env None True)\<lparr>storage_session_get := Inl (Thrown ''storage'')\<rparr>)
       ''c1'' ''s1'' ''a1'' ''st1'' 1 = Inr \<lparr>gql_errors = None, gql_data = Some JNull\<rparr>"
    by (simp add: eval_defs)
  have rejected: "addProgressForActivity ascii_runtime (plain_env None False) ''c1'' ''s1'' ''a1'' ''st1'' 1
       = Inl (HttpError 403 ''Forbidden'')"
    by (simp add: eval_defs)
  have stored: "storage_session_get no_result_env = Inr (Some captured_request)"
    and tab: "getTab no_result_env = Inr 7"
    and page: "executeScript no_result_env 7 (req_url captured_request) = Inr [None]"
    by (simp_all add: no_result_env_def)
  have replayed: "storage_session_get no_result_env = Inr (Some captured_request)
      \<and> req_body captured_request = Some ''{}'' \<and> ''{}'' \<noteq> []
      \<and> JSON_parse ascii_runtime ''{}'' = Inr (JObj [])
      \<and> update_body no_result_env ''c1'' ''s1'' ''a1'' ''st1'' 1 (JObj []) = Inr ?body
      \<and> getTab no_result_env = Inr 7
      \<and> (executeScript no_result_env 7
             (JSON_stringify_request ascii_runtime
                (captured_request\<lparr>req_body := Some (JSON_stringify ascii_runtime ?body)\<rparr>)) = Inr []
          \<or> executeScript no_result_env 7
             (JSON_stringify_request ascii_runtime
                (captured_request\<lparr>req_body := Some (JSON_stringify ascii_runtime ?body)\<rparr>))
             = Inr (None # []))"
    by (simp add: no_result_env_def captured_request_def ascii_runtime_fields update_body_def)
  have no_result: "addProgressForActivity ascii_runtime no_result_env ''c1'' ''s1'' ''a1'' ''st1'' 1
       = Inr (InPage None)"
    using replay_failure_falls_back [OF ids, where rt = ascii_runtime and score = 1
        and e = no_result_env and storedReq = captured_request and b = "''{}''"
        and bodyObj = "JObj []" and bodyObj' = ?body and tab = 7 and rs = "[]"] replayed
    by blast
  show ?thesis
    using replay_failure_falls_back [OF ids, where rt = ascii_runtime and score = 1
        and e = "(plain_env None True)\<lparr>storage_session_get := Inl (Thrown ''storage'')\<rparr>"
        and err = "Thrown ''storage''"]
      replay_failure_falls_back [OF ids, where rt = ascii_runtime and score = 1
        and e = "plain_env None False" and err = "Thrown ''storage''"]
      storage direct rejected stored tab page no_result
    by simp
qed

text \<open>
  Claim C7 as stated fails: when the execution in the page comes back without a result
  (a failure of the in-page execution that is not thrown), \<open>addProgressForActivity\<close>
  returns the undefined result; the direct request, which would have been accepted, is
  not the result.
\<close>

theorem replay_without_result_counterexample:
  "executeScript no_result_env 7 (req_url captured_request) = Inr [None]
   \<and> addProgressForActivity ascii_runtime no_result_env ''c1'' ''s1'' ''a1'' ''st1'' 1
       = Inr (InPage None)
   \<and> direct_fetch no_result_env ''c1'' ''s1'' ''a1'' ''st1'' 1
       = Inr \<lparr>gql_errors = None, gql_data = Some JNull\<rparr>"
  by (simp add: eval_defs no_result_env_def captured_request_def update_body_def)

lemma replay_returns:
  assumes "storage_session_get e = Inr (Some storedReq)"
    and "req_body storedReq = Some b" and "b \<noteq> []"
    and "JSON_parse rt b = Inr bodyObj"
    and "update_body e cid sid aid stid score bodyObj = Inr bodyObj'"
    and "getTab e = Inr tab"
    and "executeScript e tab
           (JSON_stringify_request rt (storedReq\<lparr>req_body := Some (JSON_stringify rt bodyObj')\<rparr>))
         = Inr (r # rs)"
  shows "replay_stored_request rt e cid sid aid stid score = Inr (Some r)"
  using assms by (simp add: replay_stored_request_def)

lemma addProgress_replayed:
  assumes "cid \<noteq> []" "sid \<noteq> []" "aid \<noteq> []" "stid \<noteq> []"
    and "replay_stored_request rt e cid sid aid stid score = Inr (Some r)"
  shows "addProgressForActivity rt e cid sid aid stid score = Inr (InPage r)"
  using assms by (simp add: addProgressForActivity_def token_present)

lemma submit_one_resolved:
  assumes "addProgressForActivity rt (w (trace b)) cid sid aid stid 1 = Inr x"
  shows "submit_steps rt w cid sid aid [\<lparr>activityStepId = stid\<rparr>] (n, b) =
           (Suc n, b\<lparr>trace := trace b @ [CallAddProgressForActivity cid sid aid stid 1]\<rparr>)"
  using assms by simp

lemma no_steps_resolved:
  assumes "addProgressForActivity rt (w (trace b)) (item_courseId item) (sequenceId sq)
             (activityId act) (activityId act) 1 = Inr x"
    and "find (\<lambda>a. activityId a = act_activityId selectedAct) acts = Some act"
    and "steps act = None"
  shows "process_selected_activity rt w item sq acts selectedAct (n, b) =
           (Suc n, b\<lparr>trace := trace b @
                       [CallAddProgressForActivity (item_courseId item) (sequenceId sq)
                          (activityId act) (activityId act) 1],
                     successCount := Suc (successCount b)\<rparr>)"
  using assms by (simp add: process_selected_activity_def)

lemma add_one_resolved:
  assumes "addProgressForActivity rt (w (calls wk)) cid sid aid stid 1 = Inr x"
  shows "add_steps rt w cid sid aid [\<lparr>activityStepId = stid\<rparr>] wk =
           Inr (say (LogStepAdded stid) (called (CallAddProgressForActivity cid sid aid stid 1) wk))"
  using assms by simp

lemma add_activity_resolved:
  assumes "addProgressForActivity rt (w (calls wk)) cid sid aid aid 1 = Inr x"
  shows "add_activity rt w cid sid aid wk =
           Inr (say (LogActivityAdded aid) (called (CallAddProgressForActivity cid sid aid aid 1) wk))"
  using assms by (simp add: add_activity_def)

text \<open>
  Claim C10. When the replay path runs to the end (a request with a body is stored,
  the body parses and is rewritten, a tab is found and the injected function has run),
  \<open>addProgressForActivity\<close> returns the first in-page result as it is, whatever its
  status, its \<open>ok\<close> flag and its text are: nothing is thrown. In the selected-batch
  engine such a submission counts as a processed step, and for an activity without
  steps as a success; in \<open>processAllProgress\<close> it is logged as added.
\<close>

theorem replayed_result_not_inspected:
  assumes "cid \<noteq> []" "sid \<noteq> []" "aid \<noteq> []" "stid \<noteq> []"
    and "storage_session_get e = Inr (Some storedReq)"
    and "req_body storedReq = Some bodyText" and "bodyText \<noteq> []"
    and "JSON_parse rt bodyText = Inr bodyObj"
    and "update_body e cid sid aid stid 1 bodyObj = Inr bodyObj'"
    and "getTab e = Inr tab"
    and "executeScript e tab
           (JSON_stringify_request rt (storedReq\<lparr>req_body := Some (JSON_stringify rt bodyObj')\<rparr>))
         = Inr (r # rs)"
  shows "addProgressForActivity rt e cid sid aid stid 1 = Inr (InPage r)
     \<and> (w (trace b) = e \<longrightarrow>
          submit_steps rt w cid sid aid [\<lparr>activityStepId = stid\<rparr>] (n, b) =
            (Suc n, b\<lparr>trace := trace b @ [CallAddProgressForActivity cid sid aid stid 1]\<rparr>))
     \<and> (w (trace b) = e \<and> stid = aid \<and> item_courseId item = cid \<and> sequenceId sq = sid
          \<and> find (\<lambda>a. activityId a = act_activityId selectedAct) acts = Some act
          \<and> activityId act = aid \<and> steps act = None \<longrightarrow>
          process_selected_activity rt w item sq acts selectedAct (n, b) =
            (Suc n, b\<lparr>trace := trace b @ [CallAddProgressForActivity cid sid aid aid 1],
                      successCount := Suc (successCount b)\<rparr>))
     \<and> (w (calls wk) = e \<longrightarrow>
          add_steps rt w cid sid aid [\<lparr>activityStepId = stid\<rparr>] wk =
            Inr (say (LogStepAdded stid) (called (CallAddProgressForActivity cid sid aid stid 1) wk)))
     \<and> (w (calls wk) = e \<and> stid = aid \<longrightarrow>
          add_activity rt w cid sid aid wk =
            Inr (say (LogActivityAdded aid) (called (CallAddProgressForActivity cid sid aid aid 1) wk)))"
proof -
  have "replay_stored_request rt e cid sid aid stid 1 = Inr (Some r)"
    using assms(5-11) by (rule replay_returns)
  with assms(1-4) have returned: "addProgressForActivity rt e cid sid aid stid 1 = Inr (InPage r)"
    by (rule addProgress_replayed)
  show ?thesis
    using returned submit_one_resolved [of rt w b cid sid aid stid "InPage r" n]
      no_steps_resolved [of rt w b item sq act "InPage r" selectedAct acts n]
      add_one_resolved [of rt w wk cid sid aid stid "InPage r"]
      add_activity_resolved [of rt w wk cid sid aid "InPage r"]
    by (intro conjI impI) (simp_all del: submit_steps.simps add_steps.simps)
qed


lemma walk_projections [simp]:
  "console (say entry wk) = console wk @ [entry]"
  "calls (say entry wk) = calls wk"
  "console (called c wk) = console wk"
  "calls (called c wk) = calls wk @ [c]"
  by (simp_all add: say_def called_def)

lemma walk_activity_step_failure_logged:
  assumes "steps act = Some (st # sts)"
    and "addProgressForActivity rt (w (calls wk)) cid (sequenceId sq) (activityId act)
           (activityStepId st) 1 = Inl err"
  shows "walk_activity rt w cid sq n wk (i, act) =
           say (LogActivityFailed (activityId act) err)
             (called (CallAddProgressForActivity cid (sequenceId sq) (activityId act)
                        (activityStepId st) 1)
                (say (LogProcessingActivity (i + 1) n (activityId act)) wk))"
  using assms by (simp add: walk_activity_def try_activity_def Let_def)

lemma walk_activity_failure_logged:
  assumes "steps act = None \<or> steps act = Some []"
    and "addProgressForActivity rt (w (calls wk)) cid (sequenceId sq) (activityId act)
           (activityId act) 1 = Inl err"
  shows "walk_activity rt w cid sq n wk (i, act) =
           say (LogActivityFailed (activityId act) err)
             (called (CallAddProgressForActivity cid (sequenceId sq) (activityId act)
                        (activityId act) 1)
                (say (LogProcessingActivity (i + 1) n (activityId act)) wk))"
  using assms by (auto simp: walk_activity_def try_activity_def add_activity_def Let_def)

theorem replayed_result_not_inspected_witness:
  "storage_session_get replay_env = Inr (Some captured_request)
   \<and> executeScript replay_env 7 (req_url captured_request) = Inr [Some server_error_page]
   \<and> page_ok server_error_page = False
   \<and> addProgressForActivity ascii_runtime replay_env ''c1'' ''s1'' ''a1'' ''a1'' 1
       = Inr (InPage (Some server_error_page))
   \<and> process_selected_activity ascii_runtime (always replay_env) saludos_item
        (sequence_with ActivitiesOther) [activity_with None] selected_a1 (0, batch0)
       = (1, batch0\<lparr>trace := [CallAddProgressForActivity ''c1'' ''s1'' ''a1'' ''a1'' 1],
                     successCount := 1\<rparr>)
   \<and> add_activity ascii_runtime (always replay_env) ''c1'' ''s1'' ''a1'' walk0
       = Inr (say (LogActivityAdded ''a1'')
                (called (CallAddProgressForActivity ''c1'' ''s1'' ''a1'' ''a1'' 1) walk0))"
proof -
  let ?body = "JObj [(''variables'',
                  JObj [(''messages'',
                     JArr [new_message (userAgent replay_env) ''c1'' ''s1'' ''a1''
                             (replay_uuid replay_env 0) ''a1'' (replay_uuid replay_env 1) 1
                             (replay_now replay_env 0)])])]"
  have ids: "''c1'' \<noteq> []" "''s1'' \<noteq> []" "''a1'' \<noteq> []" "''a1'' \<noteq> []"
    by simp_all
  have stored: "storage_session_get replay_env = Inr (Some captured_request)"
    by (simp add: replay_env_def)
  have body: "req_body captured_request = Some ''{}''" "''{}'' \<noteq> []"
    by (simp_all add: captured_request_def)
  have parsed: "JSON_parse ascii_runtime ''{}'' = Inr (JObj [])"
    by (simp add: ascii_runtime_fields)
  have rewritten: "update_body replay_env ''c1'' ''s1'' ''a1'' ''a1'' 1 (JObj []) = Inr ?body"
    by (simp add: update_body_def)
  have tab: "getTab replay_env = Inr 7"
    by (simp add: replay_env_def)
  have executed: "executeScript replay_env 7
      (JSON_stringify_request ascii_runtime
         (captured_request\<lparr>req_body := Some (JSON_stringify ascii_runtime ?body)\<rparr>))
      = Inr [Some server_error_page]"
    by (simp add: replay_env_def)
  have page: "executeScript replay_env 7 (req_url captured_request) = Inr [Some server_error_page]"
    "page_ok server_error_page = False"
    by (simp_all add: replay_env_def server_error_page_def)
  have found: "find (\<lambda>a. activityId a = act_activityId selected_a1) [activity_with None]
      = Some (activity_with None)"
    by (simp add: selected_a1_def activity_with_def)
  note inst = replayed_result_not_inspected [OF ids stored body parsed rewritten tab executed,
      where w = "always replay_env" and b = batch0 and n = 0 and item = saludos_item
        and sq = "sequence_with ActivitiesOther" and selectedAct = selected_a1
        and acts = "[activity_with None]" and act = "activity_with None" and wk = walk0]
  have branch: "always replay_env (trace batch0) = replay_env \<and> ''a1'' = ''a1''
      \<and> item_courseId saludos_item = ''c1'' \<and> sequenceId (sequence_with ActivitiesOther) = ''s1''
      \<and> find (\<lambda>a. activityId a = act_activityId selected_a1) [activity_with None]
          = Some (activity_with None)
      \<and> activityId (activity_with None) = ''a1'' \<and> steps (activity_with None) = None"
    using found by (simp add: always_def saludos_item_def sequence_with_def activity_with_def)
  have world: "always replay_env (calls walk0) = replay_env \<and> ''a1'' = ''a1''"
    by (simp add: always_def)
  from inst have returned: "addProgressForActivity ascii_runtime replay_env ''c1'' ''s1'' ''a1'' ''a1'' 1
      = Inr (InPage (Some server_error_page))"
    by blast
  from inst branch have counted: "process_selected_activity ascii_runtime (always replay_env)
      saludos_item (sequence_with ActivitiesOther) [activity_with None] selected_a1 (0, batch0)
      = (Suc 0, batch0\<lparr>trace := trace batch0 @ [CallAddProgressForActivity ''c1'' ''s1'' ''a1'' ''a1'' 1],
                        successCount := Suc (successCount batch0)\<rparr>)"
    by blast
  from inst world have logged: "add_activity ascii_runtime (always replay_env) ''c1'' ''s1'' ''a1'' walk0
       = Inr (say (LogActivityAdded ''a1'')
                (called (CallAddProgressForActivity ''c1'' ''s1'' ''a1'' ''a1'' 1) walk0))"
    by blast
  have state: "batch0\<lparr>trace := trace batch0 @ [CallAddProgressForActivity ''c1'' ''s1'' ''a1'' ''a1'' 1],
                        successCount := Suc (successCount batch0)\<rparr>
      = batch0\<lparr>trace := [CallAddProgressForActivity ''c1'' ''s1'' ''a1'' ''a1'' 1], successCount := 1\<rparr>"
    by (simp add: batch0_def)
  show ?thesis
    using stored page returned counted [unfolded state] logged by simp
qed

lemma slug_adios: "titleToSlug ascii_runtime (of_ascii ''Adios'') = of_ascii ''adios''"
  by (simp add: titleToSlug_def ascii_runtime_def ascii_lower_def of_ascii_def remove_accents_def
      is_combining_mark_def is_alnum_def trim_dashes_def dash_def)

lemma slugs_differ: "of_ascii ''adios'' \<noteq> of_ascii ''saludos''"
  by (simp add: of_ascii_def)

lemma walk_env_rejects:
  "addProgressForActivity ascii_runtime walk_env ''c1'' ''s1'' aid stid 1 =
     (if aid = [] \<or> stid = []
      then Inl (Error ''courseId, sequenceId, activityId, and activityStepId are required'')
      else Inl (HttpError 403 ''Forbidden''))"
  by (simp add: addProgressForActivity_def replay_stored_request_def direct_fetch_def
      check_response_def walk_env_def plain_env_def rejected_response_def token_present)

lemma walk_env_saludos:
  "getSequence walk_env ''c1'' (of_ascii ''saludos'') ''fr-FR'' = Inl (Thrown ''offline'')"
  by (simp add: getSequence_def walk_env_def token_present of_ascii_nonempty)

lemma walk_env_adios:
  "getSequence walk_env ''c1'' (of_ascii ''adios'') ''fr-FR'' =
     Inr \<lparr>gql_errors = None, gql_data = Some (sequence_with (ActivitiesList two_activities))\<rparr>"
  by (simp add: getSequence_def walk_env_def token_present of_ascii_nonempty slugs_differ
      check_response_def ok_response_def)

lemma walk_env_courses:
  "getCoursesAndProgress walk_env ''fr-FR'' =
     Inr \<lparr>gql_errors = None, gql_data = Some [intro_course]\<rparr>"
  "getCoursesAndProgress untitled_env ''fr-FR'' =
     Inr \<lparr>gql_errors = None, gql_data = Some [untitled_course]\<rparr>"
  by (simp_all add: getCoursesAndProgress_def walk_env_def untitled_env_def token_present
      check_response_def ok_response_def)

text \<open>
  Claim C9. The course lists \<open>Saludos\<close>, whose fetch is refused, and \<open>Adios\<close>, which
  has an activity with the steps \<open>st1\<close> and \<open>st2\<close> and an activity without steps;
  every submission is rejected. The walk goes past the failed sequence and past both
  failed activities and resolves, but after the rejected \<open>st1\<close> the step \<open>st2\<close> is
  never submitted: the calls hold one submission for the first activity. On the same
  steps the loop of the selected-batch engine submits both. And when the title of a
  listed sequence is null, the run is rejected with the \<open>TypeError\<close> before any
  sequence is fetched.
\<close>

theorem processAllProgress_step_failure_ends_steps:
  "processAllProgress ascii_runtime (always walk_env) None =
     (Inr (),
      \<lparr>console =
         [LogFetchingCourses,
          LogFoundCourses 1,
          LogProcessingCourse ''c1'' (of_ascii ''Intro''),
          LogProcessingSequence (of_ascii ''Saludos'') (of_ascii ''saludos''),
          LogFetchingSequence,
          LogSequenceFailed (of_ascii ''saludos'') (Thrown ''offline''),
          LogProcessingSequence (of_ascii ''Adios'') (of_ascii ''adios''),
          LogFetchingSequence,
          LogFoundActivities 2,
          LogProcessingActivity 1 2 ''a1'',
          LogActivityFailed ''a1'' (HttpError 403 ''Forbidden''),
          LogProcessingActivity 2 2 ''a2'',
          LogActivityFailed ''a2'' (HttpError 403 ''Forbidden''),
          LogComplete],
       calls =
         [CallGetCoursesAndProgress ''fr-FR'',
          CallGetSequence ''c1'' (of_ascii ''saludos'') ''fr-FR'',
          CallGetSequence ''c1'' (of_ascii ''adios'') ''fr-FR'',
          CallAddProgressForActivity ''c1'' ''s1'' ''a1'' ''st1'' 1,
          CallAddProgressForActivity ''c1'' ''s1'' ''a2'' ''a2'' 1]\<rparr>)
   \<and> submit_steps ascii_runtime (always walk_env) ''c1'' ''s1'' ''a1'' [step1, step2] (0, batch0) =
       (0, batch0\<lparr>trace := [CallAddProgressForActivity ''c1'' ''s1'' ''a1'' ''st1'' 1,
                              CallAddProgressForActivity ''c1'' ''s1'' ''a1'' ''st2'' 1]\<rparr>)
   \<and> processAllProgress ascii_runtime (always untitled_env) None =
     (Inl (Thrown ''TypeError''),
      \<lparr>console =
         [LogFetchingCourses,
          LogFoundCourses 1,
          LogProcessingCourse ''c1'' (of_ascii ''Intro''),
          LogError (Thrown ''TypeError'')],
       calls = [CallGetCoursesAndProgress ''fr-FR'']\<rparr>)"
proof (intro conjI)
  show "processAllProgress ascii_runtime (always walk_env) None =
     (Inr (),
      \<lparr>console =
         [LogFetchingCourses,
          LogFoundCourses 1,
          LogProcessingCourse ''c1'' (of_ascii ''Intro''),
          LogProcessingSequence (of_ascii ''Saludos'') (of_ascii ''saludos''),
          LogFetchingSequence,
          LogSequenceFailed (of_ascii ''saludos'') (Thrown ''offline''),
          LogProcessingSequence (of_ascii ''Adios'') (of_ascii ''adios''),
          LogFetchingSequence,
          LogFoundActivities 2,
          LogProcessingActivity 1 2 ''a1'',
          LogActivityFailed ''a1'' (HttpError 403 ''Forbidden''),
          LogProcessingActivity 2 2 ''a2'',
          LogActivityFailed ''a2'' (HttpError 403 ''Forbidden''),
          LogComplete],
       calls =
         [CallGetCoursesAndProgress ''fr-FR'',
          CallGetSequence ''c1'' (of_ascii ''saludos'') ''fr-FR'',
          CallGetSequence ''c1'' (of_ascii ''adios'') ''fr-FR'',
          CallAddProgressForActivity ''c1'' ''s1'' ''a1'' ''st1'' 1,
          CallAddProgressForActivity ''c1'' ''s1'' ''a2'' ''a2'' 1]\<rparr>)"
    by (simp add: processAllProgress_def walk_course_def walk_sequence_def all_activities_of_def
        walk_activity_def try_activity_def add_activity_def always_def walk_env_courses
        walk_env_saludos walk_env_adios walk_env_rejects intro_course_def slug_saludos slug_adios
        two_activities_def activity_with_def sequence_with_def step1_def step2_def say_def
        called_def Let_def upt_conv_Cons)
next
  show "submit_steps ascii_runtime (always walk_env) ''c1'' ''s1'' ''a1'' [step1, step2] (0, batch0) =
       (0, batch0\<lparr>trace := [CallAddProgressForActivity ''c1'' ''s1'' ''a1'' ''st1'' 1,
                              CallAddProgressForActivity ''c1'' ''s1'' ''a1'' ''st2'' 1]\<rparr>)"
    by (simp add: always_def walk_env_rejects step1_def step2_def batch0_def)
next
  show "processAllProgress ascii_runtime (always untitled_env) None =
     (Inl (Thrown ''TypeError''),
      \<lparr>console =
         [LogFetchingCourses,
          LogFoundCourses 1,
          LogProcessingCourse ''c1'' (of_ascii ''Intro''),
          LogError (Thrown ''TypeError'')],
       calls = [CallGetCoursesAndProgress ''fr-FR'']\<rparr>)"
    by (simp add: processAllProgress_def walk_course_def walk_sequence_def always_def
        walk_env_courses untitled_course_def say_def called_def Let_def)
qed

end
